theory Spec2Isabelle
  imports Main "HOL-Library.Sublist" "HOL-Library.Multiset" "HOL-Library.Char_ord" "HOL-Library.List_Lexorder"
begin

section \<open>Go strings\<close>

text \<open>
  A Go string is modelled by the sequence of runes (Unicode code points) that
  \<^verbatim>\<open>for _, r := range s\<close> yields; \<^verbatim>\<open>strings.Builder.WriteRune\<close> appends one rune.
  \<open>str\<close> reads an ASCII literal as such a sequence.
\<close>

type_synonym rune = nat
type_synonym gostring = "rune list"

definition str :: "string \<Rightarrow> gostring" where
  "str s = map of_char s"

text \<open>\<^verbatim>\<open>unicode.IsSpace\<close> of the Go standard library: the Latin-1 cases and the
  White_Space ranges above Latin-1.\<close>

definition IsSpace :: "rune \<Rightarrow> bool" where
  "IsSpace r =
     (if r \<le> 255 then r = 9 \<or> r = 10 \<or> r = 11 \<or> r = 12 \<or> r = 13 \<or> r = 32 \<or> r = 133 \<or> r = 160
      else r = 5760 \<or> (8192 \<le> r \<and> r \<le> 8202) \<or> r = 8232 \<or> r = 8233 \<or> r = 8239
           \<or> r = 8287 \<or> r = 12288)"

section \<open>service.go: splitWords\<close>

abbreviation (input) SPACE :: rune where "SPACE \<equiv> 32"
abbreviation (input) DQUOTE :: rune where "DQUOTE \<equiv> 34"
abbreviation (input) SQUOTE :: rune where "SQUOTE \<equiv> 39"
abbreviation (input) BACKSLASH :: rune where "BACKSLASH \<equiv> 92"

datatype splitError = UnterminatedQuotedString | UnterminatedBackslashSequence

text \<open>The local variables of \<open>splitWords\<close>.\<close>

record splitState =
  words :: "gostring list"
  lastWord :: gostring
  escape :: bool
  prev :: rune
  wordDelim :: rune

definition splitInit :: splitState where
  "splitInit = \<lparr> words = [], lastWord = [], escape = False, prev = SPACE, wordDelim = SPACE \<rparr>"

text \<open>One iteration of the loop over the runes of the input.\<close>

definition splitStep :: "splitState \<Rightarrow> rune \<Rightarrow> splitState" where
  "splitStep st r =
     (let st' =
        (if escape st then st\<lparr> lastWord := lastWord st @ [r], escape := False \<rparr>
         else if r = BACKSLASH then st\<lparr> escape := True \<rparr>
         else if wordDelim st = SPACE \<and> IsSpace r then
           (if \<not> IsSpace (prev st)
            then st\<lparr> words := words st @ [lastWord st], lastWord := [] \<rparr>
            else st)
         else if r = wordDelim st then st\<lparr> wordDelim := SPACE \<rparr>
         else if r = DQUOTE \<or> r = SQUOTE then
           (if wordDelim st = SPACE then st\<lparr> wordDelim := r \<rparr>
            else st\<lparr> lastWord := lastWord st @ [r] \<rparr>)
         else st\<lparr> lastWord := lastWord st @ [r] \<rparr>)
      in st'\<lparr> prev := r \<rparr>)"

definition splitWords :: "gostring \<Rightarrow> splitError + gostring list" where
  "splitWords s =
     (let st = foldl splitStep splitInit s;
          ws = (if \<not> IsSpace (prev st) then words st @ [lastWord st] else words st)
      in if wordDelim st \<noteq> SPACE then Inl UnterminatedQuotedString
         else if escape st then Inl UnterminatedBackslashSequence
         else Inr ws)"

text \<open>
  The specification's reading of a malformed line, independent of the word
  buffers: a scanner that only tracks whether a backslash is pending and which
  quote, if any, is open.
\<close>

datatype quoting = Unquoted | QuotedBy rune

fun scanQuotes :: "quoting \<Rightarrow> bool \<Rightarrow> gostring \<Rightarrow> quoting \<times> bool" where
  "scanQuotes q pending [] = (q, pending)"
| "scanQuotes q True (r # rs) = scanQuotes q False rs"
| "scanQuotes q False (r # rs) =
     (if r = BACKSLASH then scanQuotes q True rs
      else case q of
        Unquoted \<Rightarrow>
          (if r = DQUOTE \<or> r = SQUOTE then scanQuotes (QuotedBy r) False rs
           else scanQuotes Unquoted False rs)
      | QuotedBy d \<Rightarrow>
          (if r = d then scanQuotes Unquoted False rs else scanQuotes (QuotedBy d) False rs))"

definition endsInsideQuote :: "gostring \<Rightarrow> bool" where
  "endsInsideQuote s = (fst (scanQuotes Unquoted False s) \<noteq> Unquoted)"

definition endsWithPendingBackslash :: "gostring \<Rightarrow> bool" where
  "endsWithPendingBackslash s = snd (scanQuotes Unquoted False s)"

text \<open>The loop state \<open>st\<close> agrees with the scanner's state: same pending
  backslash, same open quote.\<close>

definition tracks :: "splitState \<Rightarrow> quoting \<Rightarrow> bool \<Rightarrow> bool" where
  "tracks st q e \<longleftrightarrow> escape st = e \<and>
     (case q of Unquoted \<Rightarrow> wordDelim st = SPACE
              | QuotedBy d \<Rightarrow> wordDelim st = d \<and> (d = DQUOTE \<or> d = SQUOTE))"

section \<open>ircutil: channel mode types and memberships\<close>

text \<open>Outside the tokenizer, a Go string is the list of its bytes (\<^verbatim>\<open>s[i]\<close>,
  \<^verbatim>\<open>len(s)\<close>): an Isabelle \<open>string\<close>.\<close>

datatype ChannelModeType = ModeTypeA | ModeTypeB | ModeTypeC | ModeTypeD

definition StdChannelModes :: "char \<rightharpoonup> ChannelModeType" where
  "StdChannelModes =
     [CHR ''b'' \<mapsto> ModeTypeA, CHR ''e'' \<mapsto> ModeTypeA, CHR ''I'' \<mapsto> ModeTypeA,
      CHR ''k'' \<mapsto> ModeTypeB, CHR ''l'' \<mapsto> ModeTypeC,
      CHR ''i'' \<mapsto> ModeTypeD, CHR ''m'' \<mapsto> ModeTypeD, CHR ''n'' \<mapsto> ModeTypeD,
      CHR ''s'' \<mapsto> ModeTypeD, CHR ''t'' \<mapsto> ModeTypeD]"

record Membership =
  Mode :: char
  Prefix :: char

definition StdMemberships :: "Membership list" where
  "StdMemberships =
     [\<lparr>Mode = CHR ''q'', Prefix = CHR ''~''\<rparr>, \<lparr>Mode = CHR ''a'', Prefix = CHR ''&''\<rparr>,
      \<lparr>Mode = CHR ''o'', Prefix = CHR ''@''\<rparr>, \<lparr>Mode = CHR ''h'', Prefix = CHR ''%''\<rparr>,
      \<lparr>Mode = CHR ''v'', Prefix = CHR ''+''\<rparr>]"

text \<open>
  \<open>Memberships.Add\<close>: the loop over \<open>availableMemberships\<close> moves the index \<open>i\<close>
  through the list \<open>l\<close>. \<open>addScan\<close> returns \<open>None\<close> where the Go code returns early
  (the membership is already there) and \<open>Some i\<close>, the insertion index, where the loop
  breaks or ends.
\<close>

fun addScan :: "Membership list \<Rightarrow> Membership list \<Rightarrow> nat \<Rightarrow> Membership \<Rightarrow> nat option" where
  "addScan [] l i newMembership = Some i"
| "addScan (availableMembership # rest) l i newMembership =
     (if i \<ge> length l then Some i
      else if l ! i = availableMembership then
        (if availableMembership = newMembership then None
         else addScan rest l (i + 1) newMembership)
      else if availableMembership = newMembership then Some i
      else addScan rest l i newMembership)"

definition Memberships_Add ::
  "Membership list \<Rightarrow> Membership \<Rightarrow> Membership list \<Rightarrow> Membership list" where
  "Memberships_Add availableMemberships newMembership l =
     (case addScan availableMemberships l 0 newMembership of
        None \<Rightarrow> l
      | Some i \<Rightarrow> take i l @ [newMembership] @ drop i l)"

text \<open>\<open>Memberships.Remove\<close> deletes the first occurrence.\<close>

fun Memberships_Remove :: "Membership \<Rightarrow> Membership list \<Rightarrow> Membership list" where
  "Memberships_Remove oldMembership [] = []"
| "Memberships_Remove oldMembership (currentMembership # l) =
     (if currentMembership = oldMembership then l
      else currentMembership # Memberships_Remove oldMembership l)"

text \<open>\<^verbatim>\<open>string(b)\<close> for a byte \<open>b\<close>: Go converts the value as a code point, so the
  result is the byte itself below \<open>0x80\<close> and the two bytes of the UTF-8 encoding from
  \<open>0x80\<close> on.\<close>

definition stringOfByte :: "char \<Rightarrow> string" where
  "stringOfByte b =
     (if (of_char b :: nat) < 128 then [b]
      else [char_of (192 + (of_char b :: nat) div 64), char_of (128 + (of_char b :: nat) mod 64)])"

text \<open>\<open>Memberships.Format\<close>; \<^verbatim>\<open>caps["multi-prefix"]\<close> is false for an absent key.
  Without multi-prefix the result is \<^verbatim>\<open>string(m[0].Prefix)\<close>, a conversion of one
  byte; with it, the byte slice of all prefixes is converted as it is.\<close>

definition hasCap :: "(string \<rightharpoonup> bool) \<Rightarrow> string \<Rightarrow> bool" where
  "hasCap caps name = (caps name = Some True)"

definition Memberships_Format :: "(string \<rightharpoonup> bool) \<Rightarrow> Membership list \<Rightarrow> string" where
  "Memberships_Format caps m =
     (if \<not> hasCap caps ''multi-prefix'' then
        (case m of [] \<Rightarrow> [] | first # _ \<Rightarrow> stringOfByte (Prefix first))
      else map Prefix m)"








section \<open>bridge.go: applyChannelModes\<close>

text \<open>The fields of \<open>upstreamConn\<close> and \<open>upstreamChannel\<close> that the bridge reads and
  writes. \<open>modes\<close> is \<open>None\<close> for a nil map: writes to it are skipped by the code's own
  guard and \<^verbatim>\<open>delete\<close> on it does nothing.\<close>

record upstreamConn =
  availableMemberships :: "Membership list"
  availableChannelModes :: "char \<rightharpoonup> ChannelModeType"

record upstreamChannel =
  conn :: upstreamConn
  Name :: string
  Status :: char
  Members :: "string \<rightharpoonup> Membership list"
  modes :: "(char \<rightharpoonup> string) option"

datatype modeError =
    MissingPlusMinus string
  | MissingModeArgument string char char

text \<open>The local variables of \<open>applyChannelModes\<close>, with the channel it mutates.\<close>

record modeState =
  ch :: upstreamChannel
  needMarshaling :: "nat set"
  nextArgument :: nat
  plusMinus :: char

text \<open>The inner loop: the first advertised membership whose mode letter is \<open>mode\<close>.\<close>

fun findMembership :: "Membership list \<Rightarrow> char \<Rightarrow> Membership option" where
  "findMembership [] mode = None"
| "findMembership (membership # rest) mode =
     (if Mode membership = mode then Some membership else findMembership rest mode)"

definition setMode :: "upstreamChannel \<Rightarrow> char \<Rightarrow> string \<Rightarrow> upstreamChannel" where
  "setMode c mode argument =
     (case modes c of None \<Rightarrow> c | Some m \<Rightarrow> c\<lparr> modes := Some (m(mode \<mapsto> argument)) \<rparr>)"

definition deleteMode :: "upstreamChannel \<Rightarrow> char \<Rightarrow> upstreamChannel" where
  "deleteMode c mode =
     (case modes c of None \<Rightarrow> c | Some m \<Rightarrow> c\<lparr> modes := Some (m(mode := None)) \<rparr>)"

definition applyMembership ::
  "upstreamChannel \<Rightarrow> char \<Rightarrow> Membership \<Rightarrow> string \<Rightarrow> upstreamChannel" where
  "applyMembership c pm membership member =
     (case Members c member of
        None \<Rightarrow> c
      | Some l \<Rightarrow>
          if pm = CHR ''+''
          then c\<lparr> Members := (Members c)(member \<mapsto>
                   Memberships_Add (availableMemberships (conn c)) membership l) \<rparr>
          else c\<lparr> Members := (Members c)(member \<mapsto> Memberships_Remove membership l) \<rparr>)"

text \<open>The outer loop over the bytes of the mode string. An error return keeps the
  mutations already made to the channel, so the channel is returned on both paths.\<close>

fun applyModesLoop ::
  "string \<Rightarrow> string \<Rightarrow> string list \<Rightarrow> modeState \<Rightarrow> (modeError + nat set) \<times> upstreamChannel" where
  "applyModesLoop modeStr [] arguments st = (Inr (needMarshaling st), ch st)"
| "applyModesLoop modeStr (mode # rest) arguments st =
     (if mode = CHR ''+'' \<or> mode = CHR ''-'' then
        applyModesLoop modeStr rest arguments (st\<lparr> plusMinus := mode \<rparr>)
      else if plusMinus st \<noteq> CHR ''+'' \<and> plusMinus st \<noteq> CHR ''-'' then
        (Inl (MissingPlusMinus modeStr), ch st)
      else
        case findMembership (availableMemberships (conn (ch st))) mode of
          Some membership \<Rightarrow>
            if nextArgument st \<ge> length arguments then
              (Inl (MissingModeArgument modeStr (plusMinus st) mode), ch st)
            else
              applyModesLoop modeStr rest arguments
                (st\<lparr> ch := applyMembership (ch st) (plusMinus st) membership
                              (arguments ! nextArgument st),
                     needMarshaling := insert (nextArgument st) (needMarshaling st),
                     nextArgument := nextArgument st + 1 \<rparr>)
        | None \<Rightarrow>
            (case availableChannelModes (conn (ch st)) mode of
               None \<Rightarrow> applyModesLoop modeStr rest arguments st
             | Some mt \<Rightarrow>
                 if mt = ModeTypeB \<or> (mt = ModeTypeC \<and> plusMinus st = CHR ''+'') then
                   applyModesLoop modeStr rest arguments
                     (st\<lparr> ch :=
                            (if plusMinus st = CHR ''+'' then
                               setMode (ch st) mode
                                 (if nextArgument st < length arguments
                                  then arguments ! nextArgument st else [])
                             else deleteMode (ch st) mode),
                          nextArgument := nextArgument st + 1 \<rparr>)
                 else if mt = ModeTypeC \<or> mt = ModeTypeD then
                   applyModesLoop modeStr rest arguments
                     (st\<lparr> ch :=
                            (if plusMinus st = CHR ''+'' then setMode (ch st) mode []
                             else deleteMode (ch st) mode) \<rparr>)
                 else applyModesLoop modeStr rest arguments st))"

definition applyChannelModes ::
  "upstreamChannel \<Rightarrow> string \<Rightarrow> string list \<Rightarrow> (modeError + nat set) \<times> upstreamChannel" where
  "applyChannelModes c modeStr arguments =
     applyModesLoop modeStr modeStr arguments
       \<lparr> ch = c, needMarshaling = {}, nextArgument = 0, plusMinus = CHR 0x00 \<rparr>"

text \<open>A channel of a connection with the standard memberships and channel modes,
  one member and no mode set.\<close>

definition stdChannel :: upstreamChannel where
  "stdChannel =
     \<lparr> conn = \<lparr> availableMemberships = StdMemberships, availableChannelModes = StdChannelModes \<rparr>,
       Name = ''#soju'', Status = CHR ''='',
       Members = [''alice'' \<mapsto> []],
       modes = Some Map.empty \<rparr>"

section \<open>service.go: the command tree and its dispatch\<close>

text \<open>
  The handlers are Go functions; the model names them. A \<open>serviceCommandSet\<close> is a Go
  map: it is modelled by the list of its entries (distinct names) in the order of
  \<open>Names()\<close>, that is sorted by name, which is the order \<open>appendServiceCommandSetHelp\<close>
  visits. Strings are rune sequences, as \<open>splitWords\<close> produces them;
  \<^verbatim>\<open>strings.HasPrefix\<close> is \<open>prefix\<close>.
\<close>

datatype handler =
    handleServiceHelp | handleServiceNetworkCreate | handleServiceNetworkStatus
  | handleServiceNetworkUpdate | handleServiceNetworkDelete | handleServiceNetworkQuote
  | handleServiceCertFPGenerate | handleServiceCertFPFingerprints
  | handleServiceSASLSetPlain | handleServiceSASLReset
  | handleUserCreate | handleUserUpdate | handleUserDelete
  | handleServiceChannelStatus | handleServiceChannelUpdate
  | handleServiceServerStatus | handleServiceServerNotice

datatype serviceCommand =
  ServiceCommand (usage: gostring) (desc: gostring) (handle: "handler option")
    (children: "(gostring \<times> serviceCommand) list") (admin: bool)

type_synonym serviceCommandSet = "(gostring \<times> serviceCommand) list"

datatype serviceError = NoCommandSpecified | Ambiguous gostring | NotFound gostring

text \<open>The loop of \<open>Get\<close> over the entries when the name is not a key: \<open>cmd\<close> is the
  match found so far.\<close>

fun prefixScan ::
  "gostring \<Rightarrow> serviceCommandSet \<Rightarrow> serviceCommand option \<Rightarrow> serviceError + serviceCommand option"
where
  "prefixScan name [] cmd = Inr cmd"
| "prefixScan name ((k, c) # rest) cmd =
     (if \<not> prefix name k then prefixScan name rest cmd
      else if cmd \<noteq> None then Inl (Ambiguous name)
      else prefixScan name rest (Some c))"

text \<open>The first half of \<open>Get\<close>: the command that one name selects among siblings.\<close>

definition lookupCommand :: "serviceCommandSet \<Rightarrow> gostring \<Rightarrow> serviceError + serviceCommand" where
  "lookupCommand cmds name =
     (case (case map_of cmds name of
              Some c \<Rightarrow> Inr (Some c)
            | None \<Rightarrow> prefixScan name cmds None) of
        Inl e \<Rightarrow> Inl e
      | Inr None \<Rightarrow> Inl (NotFound name)
      | Inr (Some cmd) \<Rightarrow> Inr cmd)"

fun Get :: "serviceCommandSet \<Rightarrow> gostring list \<Rightarrow> serviceError + serviceCommand \<times> gostring list" where
  "Get cmds [] = Inl NoCommandSpecified"
| "Get cmds (name # params) =
     (case lookupCommand cmds name of
        Inl e \<Rightarrow> Inl e
      | Inr cmd \<Rightarrow>
          if params = [] \<or> children cmd = [] then Inr (cmd, params)
          else Get (children cmd) params)"

text \<open>\<^verbatim>\<open>strings.Join(words, " ")\<close>.\<close>

fun joinWords :: "gostring list \<Rightarrow> gostring" where
  "joinWords [] = []"
| "joinWords [w] = w"
| "joinWords (w # ws) = w @ [SPACE] @ joinWords ws"

fun appendServiceCommandSetHelp :: "serviceCommandSet \<Rightarrow> gostring list \<Rightarrow> bool \<Rightarrow> gostring list"
  and appendServiceCommandHelp :: "gostring \<Rightarrow> serviceCommand \<Rightarrow> gostring list \<Rightarrow> bool \<Rightarrow> gostring list"
where
  "appendServiceCommandSetHelp [] pre adm = []"
| "appendServiceCommandSetHelp ((name, cmd) # rest) pre adm =
     appendServiceCommandHelp name cmd pre adm @ appendServiceCommandSetHelp rest pre adm"
| "appendServiceCommandHelp name (ServiceCommand u d h cs a) pre adm =
     (if a \<and> \<not> adm then []
      else if cs = [] then [joinWords (pre @ [name])]
      else appendServiceCommandSetHelp cs (pre @ [name]) adm)"

text \<open>What the service sends and does. The reply texts are kept structured:
  \<open>ReplyParseError e\<close> is \<^verbatim>\<open>error: failed to parse command: <e>\<close>,
  \<open>ReplyError e\<close> is \<^verbatim>\<open>error: <e> (type "help" for a list of commands)\<close>,
  \<open>ReplyAdminRequired\<close> is \<^verbatim>\<open>error: you must be an admin to use this command\<close>,
  \<open>ReplyAvailable l\<close> is \<^verbatim>\<open>available commands: \<close> followed by \<open>l\<close> joined by commas,
  \<open>ReplyNotFound w\<close> is \<^verbatim>\<open>command "<w>" not found\<close> and \<open>ReplyText t\<close> is \<open>t\<close>.
  \<open>Handle h params\<close> is the call of the handler \<open>h\<close>, whose own replies are not
  modelled here.\<close>

datatype serviceReply =
    ReplyParseError splitError
  | ReplyError serviceError
  | ReplyAdminRequired
  | ReplyAvailable "gostring list"
  | ReplyNotFound gostring
  | ReplyText gostring

datatype serviceEffect =
    SendServicePRIVMSG serviceReply
  | LoggerPrintf gostring
  | Handle handler "gostring list"
  | Panic

text \<open>\<open>handleServicePRIVMSG\<close> after the tokenizer. \<open>cmds\<close> is the global
  \<open>serviceCommands\<close>, \<open>userAdmin\<close> is \<^verbatim>\<open>dc.user.Admin\<close>.\<close>

definition dispatchWords :: "serviceCommandSet \<Rightarrow> bool \<Rightarrow> gostring list \<Rightarrow> serviceEffect list" where
  "dispatchWords cmds userAdmin ws =
     (case Get cmds ws of
        Inl err \<Rightarrow> [SendServicePRIVMSG (ReplyError err)]
      | Inr (cmd, params) \<Rightarrow>
          if admin cmd \<and> \<not> userAdmin then [SendServicePRIVMSG ReplyAdminRequired]
          else
            (case handle cmd of
               None \<Rightarrow>
                 (if children cmd \<noteq> [] then
                    [SendServicePRIVMSG
                       (ReplyAvailable (appendServiceCommandSetHelp (children cmd) ws userAdmin))]
                  else
                    (case ws of
                       [] \<Rightarrow> [Panic]
                     | w # _ \<Rightarrow> [LoggerPrintf w, SendServicePRIVMSG (ReplyNotFound w)]))
             | Some h \<Rightarrow> [Handle h params]))"

definition handleServicePRIVMSG :: "serviceCommandSet \<Rightarrow> bool \<Rightarrow> gostring \<Rightarrow> serviceEffect list" where
  "handleServicePRIVMSG cmds userAdmin text =
     (case splitWords text of
        Inl err \<Rightarrow> [SendServicePRIVMSG (ReplyParseError err)]
      | Inr ws \<Rightarrow> dispatchWords cmds userAdmin ws)"

text \<open>The handler of \<open>help\<close>: an error goes back to \<open>handleServicePRIVMSG\<close>, which sends
  it; otherwise exactly one reply is sent.\<close>

definition serviceHelp :: "serviceCommandSet \<Rightarrow> bool \<Rightarrow> gostring list \<Rightarrow> serviceError + serviceReply" where
  "serviceHelp cmds userAdmin params =
     (if params \<noteq> [] then
        (case Get cmds params of
           Inl err \<Rightarrow> Inl err
         | Inr (cmd, rest) \<Rightarrow>
             let ws = take (length params - length rest) params in
             if children cmd \<noteq> [] then
               Inr (ReplyAvailable (appendServiceCommandSetHelp (children cmd) ws userAdmin))
             else
               Inr (ReplyText (joinWords ws
                      @ (if usage cmd \<noteq> [] then [SPACE] @ usage cmd else [])
                      @ str '': '' @ desc cmd)))
      else Inr (ReplyAvailable (appendServiceCommandSetHelp cmds [] userAdmin)))"

text \<open>The tree that \<open>init\<close> builds, each set in the order of its names.\<close>

definition leaf :: "string \<Rightarrow> string \<Rightarrow> handler \<Rightarrow> bool \<Rightarrow> serviceCommand" where
  "leaf u d h a = ServiceCommand (str u) (str d) (Some h) [] a"

definition group :: "serviceCommandSet \<Rightarrow> bool \<Rightarrow> serviceCommand" where
  "group cs a = ServiceCommand [] [] None cs a"

definition serviceCommands :: serviceCommandSet where
  "serviceCommands =
    [(str ''certfp'', group
        [(str ''fingerprint'', leaf ''<network name>''
            ''show fingerprints of certificate associated with the network''
            handleServiceCertFPFingerprints False),
         (str ''generate'', leaf ''[-key-type rsa|ecdsa|ed25519] [-bits N] <network name>''
            ''generate a new self-signed certificate, defaults to using RSA-3072 key''
            handleServiceCertFPGenerate False)] False),
     (str ''channel'', group
        [(str ''status'', leaf ''[-network name]''
            ''show a list of saved channels and their current status''
            handleServiceChannelStatus False),
         (str ''update'', leaf ''<name> [-relay-detached <default|none|highlight|message>] [-reattach-on <default|none|highlight|message>] [-detach-after <duration>] [-detach-on <default|none|highlight|message>]''
            ''update a channel'' handleServiceChannelUpdate False)] False),
     (str ''help'', leaf ''[command]'' ''print help message'' handleServiceHelp False),
     (str ''network'', group
        [(str ''create'', leaf ''-addr <addr> [-name name] [-username username] [-pass pass] [-realname realname] [-nick nick] [-enabled enabled] [-connect-command command]...''
            ''add a new network'' handleServiceNetworkCreate False),
         (str ''delete'', leaf ''<name>'' ''delete a network'' handleServiceNetworkDelete False),
         (str ''quote'', leaf ''<name> <command>'' ''send a raw line to a network''
            handleServiceNetworkQuote False),
         (str ''status'', leaf []
            ''show a list of saved networks and their current status''
            handleServiceNetworkStatus False),
         (str ''update'', leaf ''<name> [-addr addr] [-name name] [-username username] [-pass pass] [-realname realname] [-nick nick] [-enabled enabled] [-connect-command command]...''
            ''update a network'' handleServiceNetworkUpdate False)] False),
     (str ''sasl'', group
        [(str ''reset'', leaf ''<network name>''
            ''disable SASL authentication and remove stored credentials''
            handleServiceSASLReset False),
         (str ''set-plain'', leaf ''<network name> <username> <password>''
            ''set SASL PLAIN credentials'' handleServiceSASLSetPlain False)] False),
     (str ''server'', group
        [(str ''notice'', leaf [] ''broadcast a notice to all connected bouncer users''
            handleServiceServerNotice True),
         (str ''status'', leaf [] ''show server statistics'' handleServiceServerStatus True)] True),
     (str ''user'', group
        [(str ''create'', leaf ''-username <username> -password <password> [-realname <realname>] [-admin]''
            ''create a new soju user'' handleUserCreate True),
         (str ''delete'', leaf ''<username>'' ''delete a user'' handleUserDelete True),
         (str ''update'', leaf ''[-password <password>] [-realname <realname>]''
            ''update the current user'' handleUserUpdate False)] False)]"

text \<open>The names in a set of which \<open>name\<close> is a prefix.\<close>

definition prefixMatches :: "serviceCommandSet \<Rightarrow> gostring \<Rightarrow> gostring list" where
  "prefixMatches cmds name = filter (prefix name) (map fst cmds)"

text \<open>A path of names below a command set none of whose commands is admin-only.\<close>

fun nonAdminPath :: "serviceCommandSet \<Rightarrow> gostring list \<Rightarrow> bool" where
  "nonAdminPath cmds [] = False"
| "nonAdminPath cmds (name # path) =
     list_ex (\<lambda>(k, cmd). k = name \<and> \<not> admin cmd \<and> (path = [] \<or> nonAdminPath (children cmd) path))
       cmds"

text \<open>Every node of a tree has a handler or children.\<close>

fun noBareNode :: "serviceCommandSet \<Rightarrow> bool"
  and noBareCommand :: "serviceCommand \<Rightarrow> bool"
where
  "noBareNode [] = True"
| "noBareNode ((name, cmd) # rest) = (noBareCommand cmd \<and> noBareNode rest)"
| "noBareCommand (ServiceCommand u d h cs a) = ((h \<noteq> None \<or> cs \<noteq> []) \<and> noBareNode cs)"

section \<open>db_sqlite.go: the store\<close>

text \<open>
  The Go records, with the fields that db_sqlite.go reads and writes. A field name is
  prefixed by its struct where several structs share it. An \<open>int64\<close> is an \<open>int\<close>; a
  \<^verbatim>\<open>[]byte\<close> is an optional byte list, \<open>None\<close> for nil.
\<close>

record User =
  User_ID :: int
  User_Username :: string
  User_Password :: string
  User_Admin :: bool
  User_Realname :: string

record SASL =
  SASL_Mechanism :: string
  SASL_Plain_Username :: string
  SASL_Plain_Password :: string
  SASL_External_CertBlob :: "string option"
  SASL_External_PrivKeyBlob :: "string option"

record Network =
  Network_ID :: int
  Network_Name :: string
  Network_Addr :: string
  Network_Nick :: string
  Network_Username :: string
  Network_Realname :: string
  Network_Pass :: string
  Network_ConnectCommands :: "string list"
  Network_SASL :: SASL
  Network_Enabled :: bool

record Channel =
  Channel_ID :: int
  Channel_Name :: string
  Channel_Key :: string
  Channel_Detached :: bool
  Channel_DetachedInternalMsgID :: string
  Channel_RelayDetached :: int
  Channel_ReattachOn :: int
  Channel_DetachAfter :: int
  Channel_DetachOn :: int

text \<open>The rows of the four tables of \<open>sqliteSchema\<close>; a column that may be NULL is an
  option.\<close>

record UserRow =
  u_id :: int
  u_username :: string
  u_password :: "string option"
  u_admin :: bool
  u_realname :: "string option"

record NetworkRow =
  n_id :: int
  n_name :: "string option"
  n_user :: int
  n_addr :: string
  n_nick :: "string option"
  n_username :: "string option"
  n_realname :: "string option"
  n_pass :: "string option"
  n_connect_commands :: "string option"
  n_sasl_mechanism :: "string option"
  n_sasl_plain_username :: "string option"
  n_sasl_plain_password :: "string option"
  n_sasl_external_cert :: "string option"
  n_sasl_external_key :: "string option"
  n_enabled :: bool

record ChannelRow =
  c_id :: int
  c_network :: int
  c_name :: string
  c_key :: "string option"
  c_detached :: bool
  c_detached_internal_msgid :: "string option"
  c_relay_detached :: int
  c_reattach_on :: int
  c_detach_after :: int
  c_detach_on :: int

record DeliveryReceiptRow =
  r_id :: int
  r_network :: int
  r_target :: string
  r_client :: "string option"
  r_internal_msgid :: string

record database =
  UserT :: "UserRow list"
  NetworkT :: "NetworkRow list"
  ChannelT :: "ChannelRow list"
  DeliveryReceiptT :: "DeliveryReceiptRow list"

datatype dbError =
    DriverError
  | ConstraintFailed
  | DatabaseFull
  | UnsupportedSASLMechanism string

text \<open>
  What the engine does outside the SQL text. A call of the driver may fail for a reason
  of its own (deadline, I/O): \<open>fails\<close>. SQLite gives a new row the largest rowid plus one
  (1 in an empty table); when the largest rowid is \<open>2^63 - 1\<close> it tries rowids at random,
  \<open>randomRowid\<close>, and gives up with SQLITE_FULL when it finds none that is unused.
  Foreign keys are not enforced (SQLite's default).
\<close>

record driver =
  fails :: bool
  randomRowid :: "int option"

definition maxRowid :: int where
  "maxRowid = 9223372036854775807"

definition newRowid :: "driver \<Rightarrow> int list \<Rightarrow> int option" where
  "newRowid d ids =
     (if ids = [] then Some 1
      else if fold max ids (hd ids) < maxRowid then Some (fold max ids (hd ids) + 1)
      else case randomRowid d of
             None \<Rightarrow> None
           | Some r \<Rightarrow> if 0 < r \<and> r \<le> maxRowid \<and> r \<notin> set ids then Some r else None)"

definition toNullString :: "string \<Rightarrow> string option" where
  "toNullString s = (if s \<noteq> [] then Some s else None)"

text \<open>Two values of a UNIQUE column collide when neither is NULL and they are equal.\<close>

definition collide :: "'a option \<Rightarrow> 'a option \<Rightarrow> bool" where
  "collide a b = (a \<noteq> None \<and> a = b)"

subsection \<open>StoreUser\<close>

definition userRowOf :: "int \<Rightarrow> User \<Rightarrow> UserRow" where
  "userRowOf rowid user =
     \<lparr> u_id = rowid, u_username = User_Username user,
       u_password = toNullString (User_Password user), u_admin = User_Admin user,
       u_realname = toNullString (User_Realname user) \<rparr>"

text \<open>\<^verbatim>\<open>UPDATE User SET password, admin, realname WHERE username = :username\<close>.\<close>

definition updateUser :: "User \<Rightarrow> UserRow list \<Rightarrow> UserRow list" where
  "updateUser user rows =
     map (\<lambda>r. if u_username r = User_Username user
               then r\<lparr> u_password := toNullString (User_Password user),
                       u_admin := User_Admin user,
                       u_realname := toNullString (User_Realname user) \<rparr>
               else r) rows"

text \<open>\<^verbatim>\<open>INSERT INTO User(username, password, admin, realname)\<close>, with
  \<^verbatim>\<open>username UNIQUE\<close>; the result is the new table and \<open>LastInsertId\<close>.\<close>

definition insertUser :: "driver \<Rightarrow> User \<Rightarrow> UserRow list \<Rightarrow> dbError + UserRow list \<times> int" where
  "insertUser d user rows =
     (if \<exists>r \<in> set rows. u_username r = User_Username user then Inl ConstraintFailed
      else case newRowid d (map u_id rows) of
             None \<Rightarrow> Inl DatabaseFull
           | Some rowid \<Rightarrow> Inr (rows @ [userRowOf rowid user], rowid))"

definition StoreUser :: "driver \<Rightarrow> User \<Rightarrow> database \<Rightarrow> dbError option \<times> User \<times> database" where
  "StoreUser d user db =
     (if User_ID user \<noteq> 0 then
        (if fails d then (Some DriverError, user, db)
         else (None, user, db\<lparr> UserT := updateUser user (UserT db) \<rparr>))
      else
        (if fails d then (Some DriverError, user, db)
         else case insertUser d user (UserT db) of
                Inl e \<Rightarrow> (Some e, user, db)
              | Inr (rows, rowid) \<Rightarrow> (None, user\<lparr> User_ID := rowid \<rparr>, db\<lparr> UserT := rows \<rparr>)))"

subsection \<open>StoreNetwork\<close>

text \<open>\<^verbatim>\<open>strings.Join(network.ConnectCommands, "\r\n")\<close>.\<close>

fun joinCRLF :: "string list \<Rightarrow> string" where
  "joinCRLF [] = []"
| "joinCRLF [c] = c"
| "joinCRLF (c # cs) = c @ [CHR 0x0D, CHR 0x0A] @ joinCRLF cs"

text \<open>The named arguments of the statement, as a row for the user \<open>userID\<close>. The
  three SASL strings are the locals \<open>saslMechanism\<close>, \<open>saslPlainUsername\<close> and
  \<open>saslPlainPassword\<close>.\<close>

definition networkRowOf ::
  "int \<Rightarrow> int \<Rightarrow> Network \<Rightarrow> string option \<Rightarrow> string option \<Rightarrow> string option \<Rightarrow> NetworkRow" where
  "networkRowOf rowid userID network saslMechanism saslPlainUsername saslPlainPassword =
     \<lparr> n_id = rowid, n_name = toNullString (Network_Name network), n_user = userID,
       n_addr = Network_Addr network, n_nick = toNullString (Network_Nick network),
       n_username = toNullString (Network_Username network),
       n_realname = toNullString (Network_Realname network),
       n_pass = toNullString (Network_Pass network),
       n_connect_commands = toNullString (joinCRLF (Network_ConnectCommands network)),
       n_sasl_mechanism = saslMechanism,
       n_sasl_plain_username = saslPlainUsername,
       n_sasl_plain_password = saslPlainPassword,
       n_sasl_external_cert = SASL_External_CertBlob (Network_SASL network),
       n_sasl_external_key = SASL_External_PrivKeyBlob (Network_SASL network),
       n_enabled = Network_Enabled network \<rparr>"

text \<open>\<^verbatim>\<open>UNIQUE(user, addr, nick)\<close> and \<^verbatim>\<open>UNIQUE(user, name)\<close> between two rows.\<close>

definition networkClash :: "NetworkRow \<Rightarrow> NetworkRow \<Rightarrow> bool" where
  "networkClash a b =
     (n_user a = n_user b \<and>
      ((n_addr a = n_addr b \<and> collide (n_nick a) (n_nick b)) \<or> collide (n_name a) (n_name b)))"

text \<open>\<^verbatim>\<open>UPDATE Network SET ... WHERE id = :id\<close>: every column but \<open>id\<close> and \<open>user\<close>.\<close>

definition updateNetwork :: "NetworkRow \<Rightarrow> NetworkRow list \<Rightarrow> dbError + NetworkRow list" where
  "updateNetwork new rows =
     (let rows' = map (\<lambda>r. if n_id r = n_id new then new\<lparr> n_user := n_user r \<rparr> else r) rows
      in if \<exists>a \<in> set rows'. \<exists>b \<in> set rows'. n_id a = n_id new \<and> n_id b \<noteq> n_id new \<and> networkClash a b
         then Inl ConstraintFailed else Inr rows')"

definition insertNetwork ::
  "driver \<Rightarrow> (int \<Rightarrow> NetworkRow) \<Rightarrow> NetworkRow list \<Rightarrow> dbError + NetworkRow list \<times> int" where
  "insertNetwork d new rows =
     (if \<exists>r \<in> set rows. networkClash (new 0) r then Inl ConstraintFailed
      else case newRowid d (map n_id rows) of
             None \<Rightarrow> Inl DatabaseFull
           | Some rowid \<Rightarrow> Inr (rows @ [new rowid], rowid))"

text \<open>The record after the assignments of the \<open>PLAIN\<close> case.\<close>

definition clearBlobs :: "Network \<Rightarrow> Network" where
  "clearBlobs network =
     network\<lparr> Network_SASL := (Network_SASL network)
        \<lparr> SASL_External_CertBlob := None, SASL_External_PrivKeyBlob := None \<rparr> \<rparr>"

text \<open>The second half of \<open>StoreNetwork\<close>, after the switch on the mechanism.\<close>

definition storeNetworkRow ::
  "driver \<Rightarrow> int \<Rightarrow> Network \<Rightarrow> string option \<Rightarrow> string option \<Rightarrow> string option \<Rightarrow> database
     \<Rightarrow> dbError option \<times> Network \<times> database" where
  "storeNetworkRow d userID network saslMechanism saslPlainUsername saslPlainPassword db =
     (let new = (\<lambda>rowid. networkRowOf rowid userID network
                   saslMechanism saslPlainUsername saslPlainPassword)
      in if Network_ID network \<noteq> 0 then
           (if fails d then (Some DriverError, network, db)
            else case updateNetwork (new (Network_ID network)) (NetworkT db) of
                   Inl e \<Rightarrow> (Some e, network, db)
                 | Inr rows \<Rightarrow> (None, network, db\<lparr> NetworkT := rows \<rparr>))
         else
           (if fails d then (Some DriverError, network, db)
            else case insertNetwork d new (NetworkT db) of
                   Inl e \<Rightarrow> (Some e, network, db)
                 | Inr (rows, rowid) \<Rightarrow>
                     (None, network\<lparr> Network_ID := rowid \<rparr>, db\<lparr> NetworkT := rows \<rparr>)))"

definition StoreNetwork ::
  "driver \<Rightarrow> int \<Rightarrow> Network \<Rightarrow> database \<Rightarrow> dbError option \<times> Network \<times> database" where
  "StoreNetwork d userID network db =
     (let mech = SASL_Mechanism (Network_SASL network) in
      if mech \<noteq> [] then
        (if mech = ''PLAIN'' then
           storeNetworkRow d userID
             (network\<lparr> Network_SASL := (Network_SASL network)
                 \<lparr> SASL_External_CertBlob := None, SASL_External_PrivKeyBlob := None \<rparr> \<rparr>)
             (toNullString mech)
             (toNullString (SASL_Plain_Username (Network_SASL network)))
             (toNullString (SASL_Plain_Password (Network_SASL network))) db
         else if mech = ''EXTERNAL'' then
           storeNetworkRow d userID network (toNullString mech) None None db
         else (Some (UnsupportedSASLMechanism mech), network, db))
      else storeNetworkRow d userID network None None None db)"

text \<open>The caller's record after the switch on the mechanism, and, column by column, the
  row that a record with a supported mechanism is stored as.\<close>

definition afterMechanism :: "Network \<Rightarrow> Network" where
  "afterMechanism network =
     (if SASL_Mechanism (Network_SASL network) = ''PLAIN'' then clearBlobs network else network)"

definition storedNetworkRow :: "int \<Rightarrow> int \<Rightarrow> Network \<Rightarrow> NetworkRow" where
  "storedNetworkRow rowid userID network =
     \<lparr> n_id = rowid,
       n_name = toNullString (Network_Name network),
       n_user = userID,
       n_addr = Network_Addr network,
       n_nick = toNullString (Network_Nick network),
       n_username = toNullString (Network_Username network),
       n_realname = toNullString (Network_Realname network),
       n_pass = toNullString (Network_Pass network),
       n_connect_commands = toNullString (joinCRLF (Network_ConnectCommands network)),
       n_sasl_mechanism = toNullString (SASL_Mechanism (Network_SASL network)),
       n_sasl_plain_username =
         (if SASL_Mechanism (Network_SASL network) = ''PLAIN''
          then toNullString (SASL_Plain_Username (Network_SASL network)) else None),
       n_sasl_plain_password =
         (if SASL_Mechanism (Network_SASL network) = ''PLAIN''
          then toNullString (SASL_Plain_Password (Network_SASL network)) else None),
       n_sasl_external_cert =
         (if SASL_Mechanism (Network_SASL network) = ''PLAIN''
          then None else SASL_External_CertBlob (Network_SASL network)),
       n_sasl_external_key =
         (if SASL_Mechanism (Network_SASL network) = ''PLAIN''
          then None else SASL_External_PrivKeyBlob (Network_SASL network)),
       n_enabled = Network_Enabled network \<rparr>"

subsection \<open>StoreChannel\<close>

text \<open>\<open>ceilSeconds\<close> stands for \<^verbatim>\<open>int64(math.Ceil(ch.DetachAfter.Seconds()))\<close>, a
  floating-point computation that the model leaves open.\<close>

definition channelRowOf :: "(int \<Rightarrow> int) \<Rightarrow> int \<Rightarrow> int \<Rightarrow> Channel \<Rightarrow> ChannelRow" where
  "channelRowOf ceilSeconds rowid networkID c =
     \<lparr> c_id = rowid, c_network = networkID, c_name = Channel_Name c,
       c_key = toNullString (Channel_Key c), c_detached = Channel_Detached c,
       c_detached_internal_msgid = toNullString (Channel_DetachedInternalMsgID c),
       c_relay_detached = Channel_RelayDetached c, c_reattach_on = Channel_ReattachOn c,
       c_detach_after = ceilSeconds (Channel_DetachAfter c), c_detach_on = Channel_DetachOn c \<rparr>"

text \<open>\<^verbatim>\<open>UNIQUE(network, name)\<close> between two rows.\<close>

definition channelClash :: "ChannelRow \<Rightarrow> ChannelRow \<Rightarrow> bool" where
  "channelClash a b = (c_network a = c_network b \<and> c_name a = c_name b)"

definition updateChannel :: "ChannelRow \<Rightarrow> ChannelRow list \<Rightarrow> dbError + ChannelRow list" where
  "updateChannel new rows =
     (let rows' = map (\<lambda>r. if c_id r = c_id new then new else r) rows
      in if \<exists>a \<in> set rows'. \<exists>b \<in> set rows'. c_id a = c_id new \<and> c_id b \<noteq> c_id new \<and> channelClash a b
         then Inl ConstraintFailed else Inr rows')"

definition insertChannel ::
  "driver \<Rightarrow> (int \<Rightarrow> ChannelRow) \<Rightarrow> ChannelRow list \<Rightarrow> dbError + ChannelRow list \<times> int" where
  "insertChannel d new rows =
     (if \<exists>r \<in> set rows. channelClash (new 0) r then Inl ConstraintFailed
      else case newRowid d (map c_id rows) of
             None \<Rightarrow> Inl DatabaseFull
           | Some rowid \<Rightarrow> Inr (rows @ [new rowid], rowid))"

definition StoreChannel ::
  "(int \<Rightarrow> int) \<Rightarrow> driver \<Rightarrow> int \<Rightarrow> Channel \<Rightarrow> database \<Rightarrow> dbError option \<times> Channel \<times> database" where
  "StoreChannel ceilSeconds d networkID c db =
     (let new = (\<lambda>rowid. channelRowOf ceilSeconds rowid networkID c)
      in if Channel_ID c \<noteq> 0 then
           (if fails d then (Some DriverError, c, db)
            else case updateChannel (new (Channel_ID c)) (ChannelT db) of
                   Inl e \<Rightarrow> (Some e, c, db)
                 | Inr rows \<Rightarrow> (None, c, db\<lparr> ChannelT := rows \<rparr>))
         else
           (if fails d then (Some DriverError, c, db)
            else case insertChannel d new (ChannelT db) of
                   Inl e \<Rightarrow> (Some e, c, db)
                 | Inr (rows, rowid) \<Rightarrow> (None, c\<lparr> Channel_ID := rowid \<rparr>, db\<lparr> ChannelT := rows \<rparr>)))"

subsection \<open>DeleteUser and DeleteNetwork\<close>

text \<open>
  A transaction of \<^verbatim>\<open>database/sql\<close>: \<open>committed\<close> is what the database holds,
  \<open>pending\<close> is what the statements of the transaction see and change, \<open>finished\<close>
  says that \<open>Commit\<close> or \<open>Rollback\<close> has been called. \<open>ExecContext\<close> is a statement
  that runs. A \<open>Commit\<close> that fails leaves the database as it was (the driver rolls
  back); \<open>Rollback\<close> after \<open>Commit\<close> does nothing.

  The list of booleans says, call by call (\<open>Begin\<close>, each \<open>ExecContext\<close>, \<open>Commit\<close>),
  whether the driver fails there (deadline, I/O); a call beyond the list does not fail.
\<close>

record tx =
  committed :: database
  pending :: database
  finished :: bool

definition Begin :: "database \<Rightarrow> tx" where
  "Begin db = \<lparr> committed = db, pending = db, finished = False \<rparr>"

definition ExecContext :: "(database \<Rightarrow> database) \<Rightarrow> tx \<Rightarrow> tx" where
  "ExecContext stmt t = t\<lparr> pending := stmt (pending t) \<rparr>"

definition Commit :: "bool \<Rightarrow> tx \<Rightarrow> tx" where
  "Commit failing t =
     (if failing then t\<lparr> pending := committed t, finished := True \<rparr>
      else t\<lparr> committed := pending t, finished := True \<rparr>)"

definition Rollback :: "tx \<Rightarrow> tx" where
  "Rollback t = (if finished t then t else t\<lparr> pending := committed t, finished := True \<rparr>)"

definition driverFails :: "bool list \<Rightarrow> nat \<Rightarrow> bool" where
  "driverFails drv n = (n < length drv \<and> drv ! n)"

text \<open>The four DELETE statements of \<open>DeleteUser\<close>; the first two select the rows to
  delete through a join with the networks of the user.\<close>

definition deleteReceiptsOfUser :: "int \<Rightarrow> database \<Rightarrow> database" where
  "deleteReceiptsOfUser userID db =
     db\<lparr> DeliveryReceiptT :=
           filter (\<lambda>r. \<not> (\<exists>n \<in> set (NetworkT db). r_network r = n_id n \<and> n_user n = userID))
             (DeliveryReceiptT db) \<rparr>"

definition deleteChannelsOfUser :: "int \<Rightarrow> database \<Rightarrow> database" where
  "deleteChannelsOfUser userID db =
     db\<lparr> ChannelT :=
           filter (\<lambda>c. \<not> (\<exists>n \<in> set (NetworkT db). c_network c = n_id n \<and> n_user n = userID))
             (ChannelT db) \<rparr>"

definition deleteNetworksOfUser :: "int \<Rightarrow> database \<Rightarrow> database" where
  "deleteNetworksOfUser userID db =
     db\<lparr> NetworkT := filter (\<lambda>n. n_user n \<noteq> userID) (NetworkT db) \<rparr>"

definition deleteUserRow :: "int \<Rightarrow> database \<Rightarrow> database" where
  "deleteUserRow userID db = db\<lparr> UserT := filter (\<lambda>u. u_id u \<noteq> userID) (UserT db) \<rparr>"

text \<open>\<open>DeleteUser\<close>: every return after \<open>Begin\<close> runs the deferred \<open>Rollback\<close>; the
  database after the call is what is committed then.\<close>

definition DeleteUser :: "bool list \<Rightarrow> int \<Rightarrow> database \<Rightarrow> dbError option \<times> database" where
  "DeleteUser drv userID db =
     (if driverFails drv 0 then (Some DriverError, db)
      else let tx0 = Begin db in
        if driverFails drv 1 then (Some DriverError, committed (Rollback tx0))
        else let tx1 = ExecContext (deleteReceiptsOfUser userID) tx0 in
          if driverFails drv 2 then (Some DriverError, committed (Rollback tx1))
          else let tx2 = ExecContext (deleteChannelsOfUser userID) tx1 in
            if driverFails drv 3 then (Some DriverError, committed (Rollback tx2))
            else let tx3 = ExecContext (deleteNetworksOfUser userID) tx2 in
              if driverFails drv 4 then (Some DriverError, committed (Rollback tx3))
              else let tx4 = ExecContext (deleteUserRow userID) tx3;
                       tx5 = Commit (driverFails drv 5) tx4
                   in (if driverFails drv 5 then Some DriverError else None,
                       committed (Rollback tx5)))"

definition deleteReceiptsOfNetwork :: "int \<Rightarrow> database \<Rightarrow> database" where
  "deleteReceiptsOfNetwork networkID db =
     db\<lparr> DeliveryReceiptT := filter (\<lambda>r. r_network r \<noteq> networkID) (DeliveryReceiptT db) \<rparr>"

definition deleteChannelsOfNetwork :: "int \<Rightarrow> database \<Rightarrow> database" where
  "deleteChannelsOfNetwork networkID db =
     db\<lparr> ChannelT := filter (\<lambda>c. c_network c \<noteq> networkID) (ChannelT db) \<rparr>"

definition deleteNetworkRow :: "int \<Rightarrow> database \<Rightarrow> database" where
  "deleteNetworkRow networkID db =
     db\<lparr> NetworkT := filter (\<lambda>n. n_id n \<noteq> networkID) (NetworkT db) \<rparr>"

definition DeleteNetwork :: "bool list \<Rightarrow> int \<Rightarrow> database \<Rightarrow> dbError option \<times> database" where
  "DeleteNetwork drv networkID db =
     (if driverFails drv 0 then (Some DriverError, db)
      else let tx0 = Begin db in
        if driverFails drv 1 then (Some DriverError, committed (Rollback tx0))
        else let tx1 = ExecContext (deleteReceiptsOfNetwork networkID) tx0 in
          if driverFails drv 2 then (Some DriverError, committed (Rollback tx1))
          else let tx2 = ExecContext (deleteChannelsOfNetwork networkID) tx1 in
            if driverFails drv 3 then (Some DriverError, committed (Rollback tx2))
            else let tx3 = ExecContext (deleteNetworkRow networkID) tx2;
                     tx4 = Commit (driverFails drv 4) tx3
                 in (if driverFails drv 4 then Some DriverError else None,
                     committed (Rollback tx4)))"

text \<open>The networks that a user owns in a database.\<close>

definition networksOf :: "database \<Rightarrow> int \<Rightarrow> int set" where
  "networksOf db userID = set (map n_id (filter (\<lambda>n. n_user n = userID) (NetworkT db)))"

text \<open>A database of two users, each with a network, a channel and a receipt, and what is
  left of it without the first user.\<close>

definition sampleDB :: database where
  "sampleDB =
     \<lparr> UserT =
         [\<lparr> u_id = 1, u_username = ''alice'', u_password = Some ''h1'', u_admin = False,
            u_realname = None \<rparr>,
          \<lparr> u_id = 2, u_username = ''bob'', u_password = Some ''h2'', u_admin = False,
            u_realname = None \<rparr>],
       NetworkT =
         [\<lparr> n_id = 1, n_name = Some ''libera'', n_user = 1, n_addr = ''irc.libera.chat'',
            n_nick = Some ''alice'', n_username = None, n_realname = None, n_pass = None,
            n_connect_commands = None, n_sasl_mechanism = None, n_sasl_plain_username = None,
            n_sasl_plain_password = None, n_sasl_external_cert = None,
            n_sasl_external_key = None, n_enabled = True \<rparr>,
          \<lparr> n_id = 2, n_name = Some ''oftc'', n_user = 2, n_addr = ''irc.oftc.net'',
            n_nick = Some ''bob'', n_username = None, n_realname = None, n_pass = None,
            n_connect_commands = None, n_sasl_mechanism = None, n_sasl_plain_username = None,
            n_sasl_plain_password = None, n_sasl_external_cert = None,
            n_sasl_external_key = None, n_enabled = True \<rparr>],
       ChannelT =
         [\<lparr> c_id = 1, c_network = 1, c_name = ''#soju'', c_key = None, c_detached = False,
            c_detached_internal_msgid = None, c_relay_detached = 0, c_reattach_on = 0,
            c_detach_after = 0, c_detach_on = 0 \<rparr>,
          \<lparr> c_id = 2, c_network = 2, c_name = ''#oftc'', c_key = None, c_detached = False,
            c_detached_internal_msgid = None, c_relay_detached = 0, c_reattach_on = 0,
            c_detach_after = 0, c_detach_on = 0 \<rparr>],
       DeliveryReceiptT =
         [\<lparr> r_id = 1, r_network = 1, r_target = ''#soju'', r_client = None,
            r_internal_msgid = ''m1'' \<rparr>,
          \<lparr> r_id = 2, r_network = 2, r_target = ''#oftc'', r_client = None,
            r_internal_msgid = ''m2'' \<rparr>] \<rparr>"

definition sampleDB_bob :: database where
  "sampleDB_bob =
     \<lparr> UserT =
         [\<lparr> u_id = 2, u_username = ''bob'', u_password = Some ''h2'', u_admin = False,
            u_realname = None \<rparr>],
       NetworkT =
         [\<lparr> n_id = 2, n_name = Some ''oftc'', n_user = 2, n_addr = ''irc.oftc.net'',
            n_nick = Some ''bob'', n_username = None, n_realname = None, n_pass = None,
            n_connect_commands = None, n_sasl_mechanism = None, n_sasl_plain_username = None,
            n_sasl_plain_password = None, n_sasl_external_cert = None,
            n_sasl_external_key = None, n_enabled = True \<rparr>],
       ChannelT =
         [\<lparr> c_id = 2, c_network = 2, c_name = ''#oftc'', c_key = None, c_detached = False,
            c_detached_internal_msgid = None, c_relay_detached = 0, c_reattach_on = 0,
            c_detach_after = 0, c_detach_on = 0 \<rparr>],
       DeliveryReceiptT =
         [\<lparr> r_id = 2, r_network = 2, r_target = ''#oftc'', r_client = None,
            r_internal_msgid = ''m2'' \<rparr>] \<rparr>"

text \<open>A driver that does not fail, and records to store.\<close>

definition okDriver :: driver where
  "okDriver = \<lparr> fails = False, randomRowid = None \<rparr>"

definition carol :: User where
  "carol = \<lparr> User_ID = 0, User_Username = ''carol'', User_Password = ''h3'',
             User_Admin = False, User_Realname = [] \<rparr>"

definition alice :: User where
  "alice = \<lparr> User_ID = 1, User_Username = ''alice'', User_Password = ''new'',
             User_Admin = True, User_Realname = ''Alice'' \<rparr>"

definition noSASL :: SASL where
  "noSASL = \<lparr> SASL_Mechanism = [], SASL_Plain_Username = [], SASL_Plain_Password = [],
              SASL_External_CertBlob = None, SASL_External_PrivKeyBlob = None \<rparr>"

definition plainSASL :: SASL where
  "plainSASL = \<lparr> SASL_Mechanism = ''PLAIN'', SASL_Plain_Username = ''al'',
                 SASL_Plain_Password = ''pw'', SASL_External_CertBlob = Some ''cert'',
                 SASL_External_PrivKeyBlob = Some ''key'' \<rparr>"

definition sampleNetwork :: "int \<Rightarrow> string \<Rightarrow> SASL \<Rightarrow> Network" where
  "sampleNetwork i name sasl =
     \<lparr> Network_ID = i, Network_Name = name, Network_Addr = ''irc.example.org'',
       Network_Nick = ''al'', Network_Username = [], Network_Realname = [], Network_Pass = [],
       Network_ConnectCommands = [], Network_SASL = sasl, Network_Enabled = True \<rparr>"

definition sampleChannel :: "int \<Rightarrow> string \<Rightarrow> Channel" where
  "sampleChannel i name =
     \<lparr> Channel_ID = i, Channel_Name = name, Channel_Key = ''k'', Channel_Detached = False,
       Channel_DetachedInternalMsgID = [], Channel_RelayDetached = 0, Channel_ReattachOn = 0,
       Channel_DetachAfter = 0, Channel_DetachOn = 0 \<rparr>"

section \<open>IRC messages, sendNames and Join\<close>

text \<open>
  \<open>irc.Message\<close> and \<open>irc.Prefix\<close> of the library gopkg.in/irc.v3, without tags (no
  message built here has any), and the library's \<open>String\<close> methods, which the code calls
  to measure a reply. \<open>String\<close> does not append the final CR LF.
\<close>

record ircPrefix =
  Prefix_Name :: string
  Prefix_User :: string
  Prefix_Host :: string

record Message =
  Message_Prefix :: "ircPrefix option"
  Message_Command :: string
  Message_Params :: "string list"

text \<open>\<^verbatim>\<open>strings.Join(l, sep)\<close>.\<close>

fun joinWith :: "string \<Rightarrow> string list \<Rightarrow> string" where
  "joinWith sep [] = []"
| "joinWith sep [x] = x"
| "joinWith sep (x # xs) = x @ sep @ joinWith sep xs"

definition Prefix_String :: "ircPrefix \<Rightarrow> string" where
  "Prefix_String p =
     Prefix_Name p
     @ (if Prefix_User p \<noteq> [] then ''!'' @ Prefix_User p else [])
     @ (if Prefix_Host p \<noteq> [] then ''@'' @ Prefix_Host p else [])"

text \<open>The last parameter is written after \<^verbatim>\<open>" :"\<close> when it is empty, contains a space
  or starts with a colon, and after a space otherwise.\<close>

definition needsColon :: "string \<Rightarrow> bool" where
  "needsColon trailing = (trailing = [] \<or> CHR '' '' \<in> set trailing \<or> hd trailing = CHR '':'')"

definition Message_String :: "Message \<Rightarrow> string" where
  "Message_String m =
     (case Message_Prefix m of
        None \<Rightarrow> []
      | Some p \<Rightarrow> if Prefix_Name p \<noteq> [] then '':'' @ Prefix_String p @ '' '' else [])
     @ Message_Command m
     @ (if Message_Params m \<noteq> [] then
          (if butlast (Message_Params m) \<noteq> []
           then '' '' @ joinWith '' '' (butlast (Message_Params m)) else [])
          @ (if needsColon (last (Message_Params m)) then '' :'' else '' '')
          @ last (Message_Params m)
        else [])"

definition MaxMessageLen :: int where
  "MaxMessageLen = 512"

text \<open>What the library's writer sends for a message: its \<open>String\<close>, then CR LF.\<close>

definition wire :: "Message \<Rightarrow> string" where
  "wire m = Message_String m @ [CHR 0x0D, CHR 0x0A]"

text \<open>
  What \<open>sendNames\<close> reads of the downstream connection. \<open>dc_prefix\<close> is
  \<^verbatim>\<open>dc.srv.prefix()\<close> and \<open>dc_marshalEntity\<close> is \<^verbatim>\<open>dc.marshalEntity(ch.conn.network, _)\<close>,
  both defined outside the files at hand. \<open>SendMessage\<close> is the list of messages
  returned, in order.
\<close>

record downstreamConn =
  dc_nick :: string
  dc_caps :: "string \<rightharpoonup> bool"
  dc_prefix :: "ircPrefix option"
  dc_marshalEntity :: "string \<Rightarrow> string"

definition namReply :: "downstreamConn \<Rightarrow> upstreamChannel \<Rightarrow> string \<Rightarrow> Message" where
  "namReply dc c names =
     \<lparr> Message_Prefix = dc_prefix dc, Message_Command = ''353'',
       Message_Params =
         [dc_nick dc, stringOfByte (Status c), dc_marshalEntity dc (Name c), names] \<rparr>"

definition endOfNames :: "downstreamConn \<Rightarrow> upstreamChannel \<Rightarrow> Message" where
  "endOfNames dc c =
     \<lparr> Message_Prefix = dc_prefix dc, Message_Command = ''366'',
       Message_Params = [dc_nick dc, dc_marshalEntity dc (Name c), ''End of /NAMES list''] \<rparr>"

text \<open>The string \<open>s\<close> that the loop builds for one member.\<close>

definition nameEntry :: "downstreamConn \<Rightarrow> upstreamChannel \<Rightarrow> string \<Rightarrow> string" where
  "nameEntry dc c nick =
     Memberships_Format (dc_caps dc) (case Members c nick of None \<Rightarrow> [] | Some l \<Rightarrow> l)
     @ dc_marshalEntity dc nick"

text \<open>The loop of \<open>sendNames\<close> over the strings of the members, \<open>buf\<close> being the
  builder.\<close>

fun namesLoop :: "(string \<Rightarrow> Message) \<Rightarrow> int \<Rightarrow> string list \<Rightarrow> string \<Rightarrow> Message list" where
  "namesLoop reply maxLength [] buf = (if buf \<noteq> [] then [reply buf] else [])"
| "namesLoop reply maxLength (s # rest) buf =
     (if buf \<noteq> [] \<and> int (length buf) + 1 + int (length s) > maxLength
      then reply buf # namesLoop reply maxLength rest s
      else namesLoop reply maxLength rest ((if buf \<noteq> [] then buf @ '' '' else buf) @ s))"

definition namesMaxLength :: "downstreamConn \<Rightarrow> upstreamChannel \<Rightarrow> int" where
  "namesMaxLength dc c = MaxMessageLen - int (length (Message_String (namReply dc c [])))"

text \<open>\<open>sendNames\<close>; \<open>order\<close> is the order in which \<^verbatim>\<open>range ch.Members\<close> yields the
  nicks.\<close>

definition sendNames :: "downstreamConn \<Rightarrow> upstreamChannel \<Rightarrow> string list \<Rightarrow> Message list" where
  "sendNames dc c order =
     namesLoop (namReply dc c) (namesMaxLength dc c) (map (nameEntry dc c) order) []
     @ [endOfNames dc c]"

text \<open>The members' strings grouped as the loop groups them: \<open>cur\<close> holds the strings
  written to the builder since the last reply.\<close>

fun nameChunks :: "int \<Rightarrow> string list \<Rightarrow> string list \<Rightarrow> string list list" where
  "nameChunks maxLength [] cur = (if cur \<noteq> [] then [cur] else [])"
| "nameChunks maxLength (s # rest) cur =
     (if cur \<noteq> [] \<and> int (length (joinWith '' '' cur)) + 1 + int (length s) > maxLength
      then cur # nameChunks maxLength rest [s]
      else nameChunks maxLength rest (cur @ [s]))"

subsection \<open>Join\<close>

text \<open>\<open>joinSorter.Less\<close> on two channel/key pairs; strings compare bytewise.\<close>

definition joinLess :: "string \<times> string \<Rightarrow> string \<times> string \<Rightarrow> bool" where
  "joinLess a b =
     (if (snd a \<noteq> []) \<noteq> (snd b \<noteq> []) then snd a \<noteq> [] else fst a < fst b)"


text \<open>
  On a short list the library runs its insertion sort,
  \<^verbatim>\<open>for i := a + 1; i < b; i++ { for j := i; j > a && data.Less(j, j-1); j-- { data.Swap(j, j-1) } }\<close>.
  \<open>joinSink\<close> is the inner loop: the pair at \<open>i\<close> moves down past the pairs before it,
  from the nearest one, as long as it is less than the one it meets; \<open>placed\<close> holds the
  pairs before \<open>i\<close>, the nearest first.
\<close>

fun joinSink :: "string \<times> string \<Rightarrow> (string \<times> string) list \<Rightarrow> (string \<times> string) list" where
  "joinSink x [] = [x]"
| "joinSink x (y # placed) =
     (if joinLess x y then y # joinSink x placed else x # y # placed)"

definition insertionSort :: "(string \<times> string) list \<Rightarrow> (string \<times> string) list" where
  "insertionSort ps = rev (foldl (\<lambda>placed x. joinSink x placed) [] ps)"

definition joinMsg :: "string \<Rightarrow> string \<Rightarrow> Message" where
  "joinMsg channelsBuf keysBuf =
     \<lparr> Message_Prefix = None, Message_Command = ''JOIN'',
       Message_Params = [channelsBuf] @ (if keysBuf \<noteq> [] then [keysBuf] else []) \<rparr>"

definition joinMaxLength :: nat where
  "joinMaxLength = 512 - (length ''JOIN'' + 2)"

fun joinLoop :: "(string \<times> string) list \<Rightarrow> string \<Rightarrow> string \<Rightarrow> Message list" where
  "joinLoop [] channelsBuf keysBuf =
     (if channelsBuf \<noteq> [] then [joinMsg channelsBuf keysBuf] else [])"
| "joinLoop ((channel, key) # rest) channelsBuf keysBuf =
     (if channelsBuf \<noteq> [] \<and>
         length channelsBuf + length keysBuf + 1 + length channel
           + (if key \<noteq> [] then 1 + length key else 0) > joinMaxLength
      then joinMsg channelsBuf keysBuf # joinLoop rest channel key
      else joinLoop rest
             ((if channelsBuf \<noteq> [] then channelsBuf @ '','' else channelsBuf) @ channel)
             (if key \<noteq> [] then (if keysBuf \<noteq> [] then keysBuf @ '','' else keysBuf) @ key
              else keysBuf))"

datatype joinError = IndexOutOfRange

text \<open>\<open>Join\<close>: \<^verbatim>\<open>keys[i]\<close> panics when there are fewer keys than channels; keys
  beyond the channels are never read.\<close>

definition Join ::
  "((string \<times> string) list \<Rightarrow> (string \<times> string) list)
     \<Rightarrow> string list \<Rightarrow> string list \<Rightarrow> joinError + Message list" where
  "Join srt channels keys =
     (if length keys < length channels then Inl IndexOutOfRange
      else Inr (joinLoop (srt (zip channels keys)) [] []))"

text \<open>The pairs grouped as the loop groups them, and the message of a group.\<close>

definition channelsOf :: "(string \<times> string) list \<Rightarrow> string" where
  "channelsOf cur = joinWith '','' (map fst cur)"

definition keysOf :: "(string \<times> string) list \<Rightarrow> string" where
  "keysOf cur = joinWith '','' (filter (\<lambda>k. k \<noteq> []) (map snd cur))"

fun joinChunks ::
  "(string \<times> string) list \<Rightarrow> (string \<times> string) list \<Rightarrow> (string \<times> string) list list" where
  "joinChunks [] cur = (if cur \<noteq> [] then [cur] else [])"
| "joinChunks ((channel, key) # rest) cur =
     (if cur \<noteq> [] \<and>
         length (channelsOf cur) + length (keysOf cur) + 1 + length channel
           + (if key \<noteq> [] then 1 + length key else 0) > joinMaxLength
      then cur # joinChunks rest [(channel, key)]
      else joinChunks rest (cur @ [(channel, key)]))"


text \<open>A downstream bound to its network (names pass unchanged), a downstream that is not
  (names get the suffix of a network whose name has 500 bytes), and a channel with two
  members.\<close>

definition boundDC :: downstreamConn where
  "boundDC =
     \<lparr> dc_nick = ''me'', dc_caps = Map.empty,
       dc_prefix = Some \<lparr> Prefix_Name = ''soju'', Prefix_User = [], Prefix_Host = [] \<rparr>,
       dc_marshalEntity = (\<lambda>name. name) \<rparr>"



section \<open>The tokenizer\<close>

text \<open>C6: the scenario S1. The line
  \<^verbatim>\<open>sasl set-plain net1 "al ice" it\ is\<close> (the double quotes and the backslash
  written as runes) splits, without error, into the five
  words sasl, set-plain, net1, "al ice" and "it is".\<close>

theorem splitWords_S1:
  "splitWords (str ''sasl set-plain net1 '' @ [DQUOTE] @ str ''al ice'' @ [DQUOTE]
               @ str '' it'' @ [BACKSLASH] @ str '' is'')
     = Inr [str ''sasl'', str ''set-plain'', str ''net1'', str ''al ice'', str ''it is'']"
  by (simp add: splitWords_def str_def splitStep_def splitInit_def IsSpace_def Let_def)

lemma tracks_pending: "tracks st q True \<Longrightarrow> tracks (splitStep st r) q False"
  by (auto simp: tracks_def splitStep_def split: quoting.splits)

lemma tracks_backslash: "tracks st q False \<Longrightarrow> tracks (splitStep st BACKSLASH) q True"
  by (auto simp: tracks_def splitStep_def IsSpace_def split: quoting.splits)

lemma tracks_unquoted:
  "tracks st Unquoted False \<Longrightarrow> r \<noteq> BACKSLASH \<Longrightarrow>
   tracks (splitStep st r) (if r = DQUOTE \<or> r = SQUOTE then QuotedBy r else Unquoted) False"
  by (auto simp: tracks_def splitStep_def IsSpace_def)

lemma tracks_quoted:
  "tracks st (QuotedBy d) False \<Longrightarrow> r \<noteq> BACKSLASH \<Longrightarrow>
   tracks (splitStep st r) (if r = d then Unquoted else QuotedBy d) False"
  by (auto simp: tracks_def splitStep_def IsSpace_def)

lemma tracks_foldl:
  "tracks st q e \<Longrightarrow>
   tracks (foldl splitStep st s) (fst (scanQuotes q e s)) (snd (scanQuotes q e s))"
proof (induction q e s arbitrary: st rule: scanQuotes.induct)
  case (1 q pending)
  then show ?case by simp
next
  case (2 q r rs)
  from 2(2) have "tracks (splitStep st r) q False" by (rule tracks_pending)
  from 2(1)[OF this] show ?case by simp
next
  case (3 q r rs)
  show ?case
  proof (cases "r = BACKSLASH")
    case True
    with 3(6) have "tracks (splitStep st r) q True" by (simp add: tracks_backslash)
    from 3(1)[OF True this] show ?thesis using True by simp
  next
    case False
    show ?thesis
    proof (cases q)
      case Unquoted
      with 3(6) False have t: "tracks (splitStep st r) (if r = DQUOTE \<or> r = SQUOTE then QuotedBy r else Unquoted) False"
        by (simp add: tracks_unquoted)
      show ?thesis
      proof (cases "r = DQUOTE \<or> r = SQUOTE")
        case True
        with t have "tracks (splitStep st r) (QuotedBy r) False" by simp
        from 3(2)[OF False Unquoted True this] show ?thesis using False Unquoted True by simp
      next
        case nq: False
        with t have "tracks (splitStep st r) Unquoted False" by simp
        from 3(3)[OF False Unquoted nq this] show ?thesis using False Unquoted nq by simp
      qed
    next
      case (QuotedBy d)
      with 3(6) False have t: "tracks (splitStep st r) (if r = d then Unquoted else QuotedBy d) False"
        by (simp add: tracks_quoted)
      show ?thesis
      proof (cases "r = d")
        case True
        with t have "tracks (splitStep st r) Unquoted False" by simp
        from 3(4)[OF False QuotedBy True this] show ?thesis using False QuotedBy True by simp
      next
        case nd: False
        with t have "tracks (splitStep st r) (QuotedBy d) False" by simp
        from 3(5)[OF False QuotedBy nd this] show ?thesis using False QuotedBy nd by simp
      qed
    qed
  qed
qed

lemma tracks_init: "tracks splitInit Unquoted False"
  by (simp add: tracks_def splitInit_def)

text \<open>C5: \<open>splitWords\<close> fails exactly when the line ends inside a quoted span or
  with a pending backslash; the error is "unterminated quoted string" in the first case
  and "unterminated backslash sequence" in the second (the quote is reported when both
  hold), and an error carries no word list.\<close>

theorem splitWords_error_iff:
  "(endsInsideQuote s \<longrightarrow> splitWords s = Inl UnterminatedQuotedString) \<and>
   (\<not> endsInsideQuote s \<and> endsWithPendingBackslash s \<longrightarrow>
      splitWords s = Inl UnterminatedBackslashSequence) \<and>
   (\<not> endsInsideQuote s \<and> \<not> endsWithPendingBackslash s \<longrightarrow> (\<exists>ws. splitWords s = Inr ws))"
  using tracks_foldl[OF tracks_init, of s]
  by (auto simp: tracks_def splitWords_def endsInsideQuote_def endsWithPendingBackslash_def Let_def
           split: quoting.splits)

theorem splitWords_error_iff_witness:
  "endsInsideQuote [DQUOTE, 97] \<and> splitWords [DQUOTE, 97] = Inl UnterminatedQuotedString \<and>
   \<not> endsInsideQuote [97, BACKSLASH] \<and> endsWithPendingBackslash [97, BACKSLASH] \<and>
   splitWords [97, BACKSLASH] = Inl UnterminatedBackslashSequence \<and>
   \<not> endsInsideQuote [97] \<and> \<not> endsWithPendingBackslash [97] \<and> (\<exists>ws. splitWords [97] = Inr ws)"
  using splitWords_error_iff [of "[DQUOTE, 97]"] splitWords_error_iff [of "[97, BACKSLASH]"]
    splitWords_error_iff [of "[97]"]
  by (simp add: endsInsideQuote_def endsWithPendingBackslash_def)

section \<open>Membership lists\<close>

















text \<open>For a prefix byte from \<open>0x80\<close> on, the two branches of \<open>Format\<close> differ: the byte
  \<open>0xE9\<close> alone is converted to the two bytes \<open>0xC3 0xA9\<close>.\<close>

lemma Format_high_byte:
  "Memberships_Format Map.empty [\<lparr>Mode = CHR ''x'', Prefix = CHR 0xE9\<rparr>] = [CHR 0xC3, CHR 0xA9]
   \<and> Memberships_Format [''multi-prefix'' \<mapsto> True] [\<lparr>Mode = CHR ''x'', Prefix = CHR 0xE9\<rparr>]
       = [CHR 0xE9]"
  by (simp add: Memberships_Format_def hasCap_def stringOfByte_def) code_simp

section \<open>Channel modes\<close>

text \<open>C1, on the code: with the standard mode table (\<open>b\<close> of type A, \<open>k\<close> of type B),
  the MODE change \<^verbatim>\<open>+bk *!*@example.org secret\<close> is accepted, and the type A letter
  \<open>b\<close> consumes no argument: the key \<open>k\<close> is recorded with the ban mask as its value
  and the argument \<open>secret\<close> is never read.\<close>

theorem applyChannelModes_typeA_consumes_nothing:
  "fst (applyChannelModes stdChannel ''+bk'' [''*!*@example.org'', ''secret'']) = Inr {}
   \<and> modes (snd (applyChannelModes stdChannel ''+bk'' [''*!*@example.org'', ''secret'']))
       = Some [CHR ''k'' \<mapsto> ''*!*@example.org'']"
  by (simp add: applyChannelModes_def stdChannel_def StdMemberships_def StdChannelModes_def
        setMode_def)

section \<open>Service dispatch\<close>

lemma prefixMatches_Nil: "prefixMatches [] name = []"
  by (simp add: prefixMatches_def)

lemma prefixMatches_Cons:
  "prefixMatches ((k, c) # cmds) name =
     (if prefix name k then k # prefixMatches cmds name else prefixMatches cmds name)"
  by (simp add: prefixMatches_def)

lemma prefixScan_Some:
  "prefixScan name cmds (Some a) =
     (if prefixMatches cmds name = [] then Inr (Some a) else Inl (Ambiguous name))"
  by (induction cmds) (auto simp: prefixMatches_Nil prefixMatches_Cons split: if_splits)

lemma prefixScan_None_nil:
  "prefixMatches cmds name = [] \<Longrightarrow> prefixScan name cmds None = Inr None"
  by (induction cmds) (auto simp: prefixMatches_Nil prefixMatches_Cons split: if_splits)

lemma prefixScan_None_one:
  "prefixMatches cmds name = [k] \<Longrightarrow>
   \<exists>c. map_of cmds k = Some c \<and> prefixScan name cmds None = Inr (Some c)"
proof (induction cmds)
  case Nil
  then show ?case by (simp add: prefixMatches_Nil prefixMatches_Cons)
next
  case (Cons e cmds)
  obtain k' c' where e: "e = (k', c')" by (cases e)
  show ?case
  proof (cases "prefix name k'")
    case True
    with Cons.prems e have k: "k' = k" and r: "prefixMatches cmds name = []"
      by (simp_all add: prefixMatches_Nil prefixMatches_Cons)
    then show ?thesis using True e by (simp add: prefixScan_Some)
  next
    case False
    with Cons.prems e have r: "prefixMatches cmds name = [k]" by (simp add: prefixMatches_Nil prefixMatches_Cons)
    then have "k \<in> set (prefixMatches cmds name)" by simp
    then have "prefix name k" unfolding prefixMatches_def by simp
    with False have "k' \<noteq> k" by auto
    with Cons.IH[OF r] False e show ?thesis by simp
  qed
qed

lemma prefixScan_None_many:
  "2 \<le> length (prefixMatches cmds name) \<Longrightarrow> prefixScan name cmds None = Inl (Ambiguous name)"
proof (induction cmds)
  case Nil
  then show ?case by (simp add: prefixMatches_Nil prefixMatches_Cons)
next
  case (Cons e cmds)
  obtain k' c' where e: "e = (k', c')" by (cases e)
  show ?case
  proof (cases "prefix name k'")
    case True
    with Cons.prems e have "prefixMatches cmds name \<noteq> []" by (auto simp: prefixMatches_Nil prefixMatches_Cons)
    then show ?thesis using True e by (simp add: prefixScan_Some)
  next
    case False
    with Cons.prems e have "2 \<le> length (prefixMatches cmds name)" by (simp add: prefixMatches_Nil prefixMatches_Cons)
    from Cons.IH[OF this] False e show ?thesis by simp
  qed
qed

lemma notkey_map_of: "name \<notin> fst ` set cmds \<Longrightarrow> map_of cmds name = None"
  by (simp add: map_of_eq_None_iff)

lemma lookup_exact: "map_of cmds name = Some c \<Longrightarrow> lookupCommand cmds name = Inr c"
  by (simp add: lookupCommand_def)

lemma lookup_unique:
  assumes "name \<notin> fst ` set cmds" and "prefixMatches cmds name = [k]"
  shows "lookupCommand cmds name = lookupCommand cmds k"
proof -
  from prefixScan_None_one[OF assms(2)] obtain c where
    c: "map_of cmds k = Some c" "prefixScan name cmds None = Inr (Some c)" by blast
  then show ?thesis using notkey_map_of[OF assms(1)] by (simp add: lookupCommand_def)
qed

lemma lookup_ambiguous:
  assumes "name \<notin> fst ` set cmds" and "2 \<le> length (prefixMatches cmds name)"
  shows "lookupCommand cmds name = Inl (Ambiguous name)"
  using prefixScan_None_many[OF assms(2)] notkey_map_of[OF assms(1)]
  by (simp add: lookupCommand_def)

lemma help_nonAdmin:
  "s \<in> set (appendServiceCommandSetHelp cmds pre adm) \<Longrightarrow> \<not> adm \<Longrightarrow>
     \<exists>path. nonAdminPath cmds path \<and> s = joinWords (pre @ path)"
  "s \<in> set (appendServiceCommandHelp name cmd pre adm) \<Longrightarrow> \<not> adm \<Longrightarrow>
     \<not> admin cmd \<and> (\<exists>path. (path = [] \<or> nonAdminPath (children cmd) path)
                          \<and> s = joinWords (pre @ name # path))"
proof (induction cmds pre adm and name cmd pre adm
       arbitrary: s and s rule: appendServiceCommandSetHelp_appendServiceCommandHelp.induct)
  case (1 pre adm)
  then show ?case by simp
next
  case (2 name cmd rest pre adm)
  from "2.prems"(1) consider "s \<in> set (appendServiceCommandHelp name cmd pre adm)"
    | "s \<in> set (appendServiceCommandSetHelp rest pre adm)" by auto
  then show ?case
  proof cases
    case 1
    from "2.IH"(1)[OF this "2.prems"(2)] obtain path where
      p: "\<not> admin cmd" "path = [] \<or> nonAdminPath (children cmd) path" "s = joinWords (pre @ name # path)"
      by blast
    then have "nonAdminPath ((name, cmd) # rest) (name # path)" by simp
    with p(3) show ?thesis by blast
  next
    case 2
    from "2.IH"(2)[OF this "2.prems"(2)] obtain path where
      p: "nonAdminPath rest path" "s = joinWords (pre @ path)" by blast
    then have "nonAdminPath ((name, cmd) # rest) path" by (cases path) auto
    with p(2) show ?thesis by blast
  qed
next
  case (3 name u d h cs a pre adm)
  show ?case
  proof (cases "a")
    case True
    with "3.prems" show ?thesis by simp
  next
    case False
    show ?thesis
    proof (cases "cs = []")
      case True
      with False "3.prems" show ?thesis by auto
    next
      case ne: False
      with False "3.prems" have "s \<in> set (appendServiceCommandSetHelp cs (pre @ [name]) adm)" by simp
      from "3.IH"[OF _ ne this "3.prems"(2)] False obtain path where
        "nonAdminPath cs path" "s = joinWords ((pre @ [name]) @ path)" by auto
      then show ?thesis using False by auto
    qed
  qed
qed

lemma Get_exact:
  "map_of cmds name = Some c \<Longrightarrow>
   Get cmds (name # params) =
     (if params = [] \<or> children c = [] then Inr (c, params) else Get (children c) params)"
  by (simp add: lookup_exact)

lemma Get_words_nonempty: "Get cmds ws = Inr r \<Longrightarrow> ws \<noteq> []"
  by (cases ws) auto

text \<open>What holds of the dispatch: a token equal to a command name selects that command,
  whatever other sibling names it is a prefix of; a token that is no command name and a
  prefix of exactly one sibling name resolves as that name does; a token that is no
  command name and a prefix of two or more sibling names gives the error "ambiguous";
  a resolved admin-only command invoked by a non-admin user is answered with the admin
  error alone, no handler being called; and every entry of a command list printed for a
  non-admin user is the path of a command that is not admin-only, below commands that
  are not admin-only.\<close>

theorem service_dispatch:
  "(\<forall>cmds name c params. map_of cmds name = Some c \<longrightarrow>
      lookupCommand cmds name = Inr c \<and>
      Get cmds (name # params) =
        (if params = [] \<or> children c = [] then Inr (c, params) else Get (children c) params))
   \<and> (\<forall>cmds name k params. name \<notin> fst ` set cmds \<and> prefixMatches cmds name = [k] \<longrightarrow>
      lookupCommand cmds name = lookupCommand cmds k \<and>
      Get cmds (name # params) = Get cmds (k # params))
   \<and> (\<forall>cmds name params. name \<notin> fst ` set cmds \<and> 2 \<le> length (prefixMatches cmds name) \<longrightarrow>
      Get cmds (name # params) = Inl (Ambiguous name))
   \<and> (\<forall>cmds line ws cmd params.
        splitWords line = Inr ws \<and> Get cmds ws = Inr (cmd, params) \<and> admin cmd \<longrightarrow>
        handleServicePRIVMSG cmds False line = [SendServicePRIVMSG ReplyAdminRequired])
   \<and> (\<forall>cmds pre s. s \<in> set (appendServiceCommandSetHelp cmds pre False) \<longrightarrow>
        (\<exists>path. nonAdminPath cmds path \<and> s = joinWords (pre @ path)))"
proof (intro conjI allI impI)
  fix cmds :: serviceCommandSet and name c and params :: "gostring list"
  assume "map_of cmds name = Some c"
  then show "lookupCommand cmds name = Inr c"
    and "Get cmds (name # params) =
        (if params = [] \<or> children c = [] then Inr (c, params) else Get (children c) params)"
    by (simp_all add: lookup_exact)
next
  fix cmds :: serviceCommandSet and name k and params :: "gostring list"
  assume h: "name \<notin> fst ` set cmds \<and> prefixMatches cmds name = [k]"
  then show l: "lookupCommand cmds name = lookupCommand cmds k" by (simp add: lookup_unique)
  then show "Get cmds (name # params) = Get cmds (k # params)" by simp
next
  fix cmds :: serviceCommandSet and name and params :: "gostring list"
  assume "name \<notin> fst ` set cmds \<and> 2 \<le> length (prefixMatches cmds name)"
  then show "Get cmds (name # params) = Inl (Ambiguous name)" by (simp add: lookup_ambiguous)
next
  fix cmds :: serviceCommandSet and line ws cmd params
  assume "splitWords line = Inr ws \<and> Get cmds ws = Inr (cmd, params) \<and> admin cmd"
  then show "handleServicePRIVMSG cmds False line = [SendServicePRIVMSG ReplyAdminRequired]"
    by (simp add: handleServicePRIVMSG_def dispatchWords_def)
next
  fix cmds :: serviceCommandSet and pre s
  assume "s \<in> set (appendServiceCommandSetHelp cmds pre False)"
  then show "\<exists>path. nonAdminPath cmds path \<and> s = joinWords (pre @ path)"
    by (simp add: help_nonAdmin(1))
qed

theorem service_dispatch_witness:
  "map_of [(str ''net'', group [] False), (str ''network'', group [] True)] (str ''net'')
      = Some (group [] False)
   \<and> Get [(str ''net'', group [] False), (str ''network'', group [] True)] [str ''net'']
      = Inr (group [] False, [])
   \<and> str ''net'' \<notin> fst ` set serviceCommands
   \<and> prefixMatches serviceCommands (str ''net'') = [str ''network'']
   \<and> Get serviceCommands [str ''net'', str ''stat'']
      = Get serviceCommands [str ''network'', str ''stat'']
   \<and> str ''s'' \<notin> fst ` set serviceCommands
   \<and> 2 \<le> length (prefixMatches serviceCommands (str ''s''))
   \<and> Get serviceCommands [str ''s''] = Inl (Ambiguous (str ''s''))
   \<and> splitWords (str ''user create'') = Inr [str ''user'', str ''create'']
   \<and> Get serviceCommands [str ''user'', str ''create'']
      = Inr (leaf ''-username <username> -password <password> [-realname <realname>] [-admin]''
               ''create a new soju user'' handleUserCreate True, [])
   \<and> handleServicePRIVMSG serviceCommands False (str ''user create'')
      = [SendServicePRIVMSG ReplyAdminRequired]
   \<and> str ''user update'' \<in> set (appendServiceCommandSetHelp serviceCommands [] False)
   \<and> (\<exists>path. nonAdminPath serviceCommands path \<and> str ''user update'' = joinWords ([] @ path))"
proof -
  let ?two = "[(str ''net'', group [] False), (str ''network'', group [] True)]"
  let ?create = "leaf ''-username <username> -password <password> [-realname <realname>] [-admin]''
               ''create a new soju user'' handleUserCreate True"
  have e: "map_of ?two (str ''net'') = Some (group [] False)"
    by (simp add: str_def)
  have u1: "str ''net'' \<notin> fst ` set serviceCommands"
    by (simp add: serviceCommands_def str_def)
  have u2: "prefixMatches serviceCommands (str ''net'') = [str ''network'']"
    by (simp add: serviceCommands_def str_def prefixMatches_def)
  have a1: "str ''s'' \<notin> fst ` set serviceCommands"
    by (simp add: serviceCommands_def str_def)
  have a2: "2 \<le> length (prefixMatches serviceCommands (str ''s''))"
    by (simp add: serviceCommands_def str_def prefixMatches_def)
  have g1: "splitWords (str ''user create'') = Inr [str ''user'', str ''create'']"
    by (simp add: splitWords_def str_def splitStep_def splitInit_def IsSpace_def Let_def)
  have g2: "Get serviceCommands [str ''user'', str ''create''] = Inr (?create, [])"
    by (simp add: serviceCommands_def str_def lookupCommand_def leaf_def group_def)
  have g3: "admin ?create" by (simp add: leaf_def)
  have l1: "str ''user update'' \<in> set (appendServiceCommandSetHelp serviceCommands [] False)"
    by (simp add: serviceCommands_def str_def leaf_def group_def)
  note T = service_dispatch
  have c1: "Get ?two [str ''net''] = Inr (group [] False, [])"
    using T[THEN conjunct1, rule_format, OF e, of "[]"] by simp
  have c2: "Get serviceCommands [str ''net'', str ''stat'']
      = Get serviceCommands [str ''network'', str ''stat'']"
    using T[THEN conjunct2, THEN conjunct1, rule_format, OF conjI[OF u1 u2]] by simp
  have c3: "Get serviceCommands [str ''s''] = Inl (Ambiguous (str ''s''))"
    using T[THEN conjunct2, THEN conjunct2, THEN conjunct1, rule_format, OF conjI[OF a1 a2]]
    by simp
  have c4: "handleServicePRIVMSG serviceCommands False (str ''user create'')
      = [SendServicePRIVMSG ReplyAdminRequired]"
    using T[THEN conjunct2, THEN conjunct2, THEN conjunct2, THEN conjunct1, rule_format,
            OF conjI[OF g1 conjI[OF g2 g3]]] .
  have c5: "\<exists>path. nonAdminPath serviceCommands path \<and> str ''user update'' = joinWords ([] @ path)"
    using T[THEN conjunct2, THEN conjunct2, THEN conjunct2, THEN conjunct2, rule_format, OF l1] .
  from e c1 u1 u2 c2 a1 a2 c3 g1 g2 c4 l1 c5 show ?thesis by blast
qed

text \<open>The two sibling branches of the help handler leave admin-only commands out for a
  non-admin user: \<^verbatim>\<open>help\<close> and \<^verbatim>\<open>help user\<close> list neither \<^verbatim>\<open>user create\<close> nor
  \<^verbatim>\<open>user delete\<close>. And \<^verbatim>\<open>help user create\<close> reaches the help handler, which is not
  admin-only, with the words \<open>user\<close> and \<open>create\<close>.\<close>

lemma service_help_lists_hide_admin:
  "serviceHelp serviceCommands False [str ''user''] = Inr (ReplyAvailable [str ''user update''])
   \<and> serviceHelp serviceCommands False []
       = Inr (ReplyAvailable
           [str ''certfp fingerprint'', str ''certfp generate'', str ''channel status'',
            str ''channel update'', str ''help'', str ''network create'', str ''network delete'',
            str ''network quote'', str ''network status'', str ''network update'',
            str ''sasl reset'', str ''sasl set-plain'', str ''user update''])"
  by (simp add: serviceHelp_def serviceCommands_def str_def lookupCommand_def leaf_def group_def)

lemma service_help_dispatched:
  "handleServicePRIVMSG serviceCommands False (str ''help user create'')
     = [Handle handleServiceHelp [str ''user'', str ''create'']]"
  by (simp add: handleServicePRIVMSG_def dispatchWords_def serviceCommands_def lookupCommand_def
        leaf_def group_def splitWords_def str_def splitStep_def splitInit_def IsSpace_def Let_def)

text \<open>C4, on the code: \<^verbatim>\<open>user create\<close> is admin-only, and for a non-admin user
  \<^verbatim>\<open>help user create\<close> replies with the usage and the description of that command:
  the branch of the help handler for a command without children does not look at the
  admin flag, so the command is not omitted from the help output.\<close>

theorem service_help_shows_admin_command:
  "admin (fst (projr (Get serviceCommands [str ''user'', str ''create''])))
   \<and> serviceHelp serviceCommands False [str ''user'', str ''create'']
     = Inr (ReplyText (str ''user create -username <username> -password <password> [-realname <realname>] [-admin]: create a new soju user''))"
  by (simp add: serviceHelp_def serviceCommands_def str_def lookupCommand_def leaf_def group_def)

text \<open>C9, as the code has it: no command set is rejected when it is built; when dispatch
  resolves to a command with neither handler nor children, and the admin check lets the
  user through, the service logs the first word and replies that the command named by the
  first word is not found, calling no handler. The tree that \<open>init\<close> builds has no such
  command.\<close>

theorem bare_command_not_found:
  "(\<forall>cmds userAdmin ws cmd params.
      Get cmds ws = Inr (cmd, params) \<and> handle cmd = None \<and> children cmd = []
        \<and> (admin cmd \<longrightarrow> userAdmin) \<longrightarrow>
      (\<exists>w rest. ws = w # rest \<and>
         dispatchWords cmds userAdmin ws
           = [LoggerPrintf w, SendServicePRIVMSG (ReplyNotFound w)]))
   \<and> noBareNode serviceCommands"
proof (intro conjI allI impI)
  fix cmds :: serviceCommandSet and userAdmin ws cmd params
  assume h: "Get cmds ws = Inr (cmd, params) \<and> handle cmd = None \<and> children cmd = []
        \<and> (admin cmd \<longrightarrow> userAdmin)"
  then have "ws \<noteq> []" using Get_words_nonempty by blast
  then obtain w rest where ws: "ws = w # rest" by (cases ws) auto
  have "dispatchWords cmds userAdmin ws = [LoggerPrintf w, SendServicePRIVMSG (ReplyNotFound w)]"
    using h unfolding dispatchWords_def ws by auto
  with ws show "\<exists>w rest. ws = w # rest \<and>
         dispatchWords cmds userAdmin ws
           = [LoggerPrintf w, SendServicePRIVMSG (ReplyNotFound w)]" by blast
next
  show "noBareNode serviceCommands"
    by (simp add: serviceCommands_def leaf_def group_def)
qed

theorem bare_command_not_found_witness:
  "Get [(str ''noop'', group [] False)] [str ''noop'', str ''x''] = Inr (group [] False, [str ''x''])
   \<and> handle (group [] False) = None \<and> children (group [] False) = []
   \<and> \<not> admin (group [] False)
   \<and> dispatchWords [(str ''noop'', group [] False)] False [str ''noop'', str ''x'']
       = [LoggerPrintf (str ''noop''), SendServicePRIVMSG (ReplyNotFound (str ''noop''))]"
proof -
  have g: "Get [(str ''noop'', group [] False)] [str ''noop'', str ''x'']
             = Inr (group [] False, [str ''x''])"
    by (simp add: lookupCommand_def group_def)
  have n: "\<not> admin (group [] False)" by (simp add: group_def)
  have h: "Get [(str ''noop'', group [] False)] [str ''noop'', str ''x'']
             = Inr (group [] False, [str ''x''])
           \<and> handle (group [] False) = None \<and> children (group [] False) = []
           \<and> (admin (group [] False) \<longrightarrow> False)"
    using g by (simp add: group_def)
  from bare_command_not_found[THEN conjunct1, rule_format, OF h]
  show ?thesis using h n by auto
qed

text \<open>C9, as stated, fails: a command set holding a command with neither handler nor
  children is a value like any other, dispatch reaches the command, and the reply is
  the "not found" one.\<close>

theorem bare_command_reached:
  "handleServicePRIVMSG [(str ''noop'', ServiceCommand [] [] None [] False)] False (str ''noop'')
     = [LoggerPrintf (str ''noop''), SendServicePRIVMSG (ReplyNotFound (str ''noop''))]"
  by (simp add: handleServicePRIVMSG_def dispatchWords_def lookupCommand_def
        splitWords_def str_def splitStep_def splitInit_def IsSpace_def Let_def)

section \<open>The store\<close>

lemma Rollback_unfinished: "\<not> finished t \<Longrightarrow> committed (Rollback t) = committed t"
  by (simp add: Rollback_def)

lemma Rollback_Commit:
  "committed (Rollback (Commit failing t)) = (if failing then committed t else pending t)"
  by (simp add: Rollback_def Commit_def)

lemma DeleteUser_error: "DeleteUser drv userID db = (Some e, db') \<Longrightarrow> db' = db"
  by (auto simp: DeleteUser_def Let_def Rollback_Commit Rollback_unfinished ExecContext_def
        Begin_def split: if_splits)

lemma DeleteUser_success:
  "DeleteUser drv userID db = (None, db') \<Longrightarrow>
     db' = deleteUserRow userID (deleteNetworksOfUser userID
             (deleteChannelsOfUser userID (deleteReceiptsOfUser userID db)))"
  by (auto simp: DeleteUser_def Let_def Rollback_Commit Rollback_unfinished ExecContext_def
        Begin_def split: if_splits)

lemma DeleteNetwork_error: "DeleteNetwork drv networkID db = (Some e, db') \<Longrightarrow> db' = db"
  by (auto simp: DeleteNetwork_def Let_def Rollback_Commit Rollback_unfinished ExecContext_def
        Begin_def split: if_splits)

text \<open>C7: when \<open>DeleteUser\<close> returns no error, the database has no network owned by the
  user, no channel and no delivery receipt of a network that the user owned, and no user
  row with that id; when it returns an error, the database is the one before the call.\<close>

theorem DeleteUser_cascade:
  "(DeleteUser drv userID db = (None, db') \<longrightarrow>
      (\<forall>n \<in> set (NetworkT db'). n_user n \<noteq> userID) \<and>
      (\<forall>c \<in> set (ChannelT db'). c_network c \<notin> networksOf db userID) \<and>
      (\<forall>r \<in> set (DeliveryReceiptT db'). r_network r \<notin> networksOf db userID) \<and>
      (\<forall>u \<in> set (UserT db'). u_id u \<noteq> userID))
   \<and> (\<forall>e. DeleteUser drv userID db = (Some e, db') \<longrightarrow> db' = db)"
proof (intro conjI impI allI)
  assume "DeleteUser drv userID db = (None, db')"
  then have d: "db' = deleteUserRow userID (deleteNetworksOfUser userID
             (deleteChannelsOfUser userID (deleteReceiptsOfUser userID db)))"
    by (rule DeleteUser_success)
  show "\<forall>n \<in> set (NetworkT db'). n_user n \<noteq> userID"
    by (simp add: d deleteUserRow_def deleteNetworksOfUser_def)
  show "\<forall>c \<in> set (ChannelT db'). c_network c \<notin> networksOf db userID"
    by (auto simp: d deleteUserRow_def deleteNetworksOfUser_def deleteChannelsOfUser_def
          deleteReceiptsOfUser_def networksOf_def)
  show "\<forall>r \<in> set (DeliveryReceiptT db'). r_network r \<notin> networksOf db userID"
    by (auto simp: d deleteUserRow_def deleteNetworksOfUser_def deleteChannelsOfUser_def
          deleteReceiptsOfUser_def networksOf_def)
  show "\<forall>u \<in> set (UserT db'). u_id u \<noteq> userID"
    by (simp add: d deleteUserRow_def)
next
  fix e assume "DeleteUser drv userID db = (Some e, db')"
  then show "db' = db" by (rule DeleteUser_error)
qed


theorem DeleteUser_cascade_witness:
  "DeleteUser [] 1 sampleDB = (None, sampleDB_bob)
   \<and> networksOf sampleDB 1 = {1}
   \<and> map n_user (NetworkT sampleDB_bob) = [2]
   \<and> map c_network (ChannelT sampleDB_bob) = [2]
   \<and> map r_network (DeliveryReceiptT sampleDB_bob) = [2]
   \<and> map u_id (UserT sampleDB_bob) = [2]
   \<and> DeleteUser [False, False, False, True] 1 sampleDB = (Some DriverError, sampleDB)"
proof -
  have ok: "DeleteUser [] 1 sampleDB = (None, sampleDB_bob)"
    by (simp add: DeleteUser_def sampleDB_def sampleDB_bob_def deleteUserRow_def
          deleteNetworksOfUser_def deleteChannelsOfUser_def deleteReceiptsOfUser_def
          Let_def driverFails_def Rollback_Commit ExecContext_def Begin_def)
  have ko: "DeleteUser [False, False, False, True] 1 sampleDB = (Some DriverError, sampleDB)"
    by (simp add: DeleteUser_def Let_def driverFails_def Rollback_unfinished ExecContext_def
          Begin_def)
  have n: "networksOf sampleDB 1 = {1}"
    by (simp add: networksOf_def sampleDB_def)
  show ?thesis
    using ok ko n DeleteUser_cascade [of "[]" 1 sampleDB sampleDB_bob]
      DeleteUser_cascade [of "[False, False, False, True]" 1 sampleDB sampleDB]
    by (simp add: sampleDB_bob_def)
qed

subsection \<open>Store\<close>

lemma newRowid_fresh: "newRowid d ids = Some rowid \<Longrightarrow> rowid \<notin> set ids"
proof -
  have m: "\<And>x (a::int). x \<in> set ids \<Longrightarrow> x \<le> fold max ids a"
  proof -
    have "\<And>(a::int). a \<le> fold max ids a \<and> (\<forall>x \<in> set ids. x \<le> fold max ids a)"
    proof (induction ids)
      case Nil
      then show ?case by simp
    next
      case (Cons y ys)
      have 1: "max y a \<le> fold max ys (max y a)" using Cons.IH by blast
      have 2: "\<forall>x \<in> set ys. x \<le> fold max ys (max y a)" using Cons.IH by blast
      from 1 2 show ?case by auto
    qed
    then show "\<And>x (a::int). x \<in> set ids \<Longrightarrow> x \<le> fold max ids a" by blast
  qed
  assume a: "newRowid d ids = Some rowid"
  show ?thesis
  proof
    assume "rowid \<in> set ids"
    then have "rowid \<le> fold max ids (hd ids)" and "ids \<noteq> []" using m by auto
    with a \<open>rowid \<in> set ids\<close> show False
      by (auto simp: newRowid_def split: if_splits option.splits)
  qed
qed

lemma StoreUser_insert:
  assumes "User_ID user = 0" and "StoreUser d user db = (None, user', db')"
  shows "\<exists>rowid. rowid \<notin> u_id ` set (UserT db) \<and> user' = user\<lparr> User_ID := rowid \<rparr>
           \<and> db' = db\<lparr> UserT := UserT db @ [userRowOf rowid user] \<rparr>"
proof -
  from assms obtain rows rowid where
    i: "insertUser d user (UserT db) = Inr (rows, rowid)"
    and r: "user' = user\<lparr> User_ID := rowid \<rparr>" "db' = db\<lparr> UserT := rows \<rparr>"
    by (auto simp: StoreUser_def split: if_splits sum.splits)
  from i have n: "newRowid d (map u_id (UserT db)) = Some rowid"
    and rows: "rows = UserT db @ [userRowOf rowid user]"
    by (auto simp: insertUser_def split: if_splits option.splits)
  from newRowid_fresh[OF n] have "rowid \<notin> u_id ` set (UserT db)" by simp
  with r rows show ?thesis by blast
qed

lemma StoreUser_update:
  assumes "User_ID user \<noteq> 0" and "StoreUser d user db = (None, user', db')"
  shows "user' = user \<and>
         db' = db\<lparr> UserT := map (\<lambda>r. if u_username r = User_Username user
                                      then userRowOf (u_id r) user else r) (UserT db) \<rparr>"
proof -
  have "updateUser user (UserT db) = map (\<lambda>r. if u_username r = User_Username user
                                      then userRowOf (u_id r) user else r) (UserT db)"
    unfolding updateUser_def by (rule map_cong) (auto simp: userRowOf_def)
  with assms show ?thesis by (auto simp: StoreUser_def split: if_splits)
qed

lemma storeNetworkRow_insert:
  assumes "Network_ID network = 0"
    and "storeNetworkRow d userID network m pu pp db = (None, network', db')"
  shows "\<exists>rowid. rowid \<notin> n_id ` set (NetworkT db) \<and> network' = network\<lparr> Network_ID := rowid \<rparr>
           \<and> db' = db\<lparr> NetworkT := NetworkT db @ [networkRowOf rowid userID network m pu pp] \<rparr>"
proof -
  let ?new = "\<lambda>rowid. networkRowOf rowid userID network m pu pp"
  from assms obtain rows rowid where
    i: "insertNetwork d ?new (NetworkT db) = Inr (rows, rowid)"
    and r: "network' = network\<lparr> Network_ID := rowid \<rparr>" "db' = db\<lparr> NetworkT := rows \<rparr>"
    by (auto simp: storeNetworkRow_def Let_def split: if_splits sum.splits)
  from i have n: "newRowid d (map n_id (NetworkT db)) = Some rowid"
    and rows: "rows = NetworkT db @ [?new rowid]"
    by (auto simp: insertNetwork_def split: if_splits option.splits)
  from newRowid_fresh[OF n] have "rowid \<notin> n_id ` set (NetworkT db)" by simp
  with r rows show ?thesis by blast
qed

lemma storeNetworkRow_update:
  assumes "Network_ID network \<noteq> 0"
    and "storeNetworkRow d userID network m pu pp db = (None, network', db')"
  shows "network' = network \<and>
         db' = db\<lparr> NetworkT := map (\<lambda>r. if n_id r = Network_ID network
              then (networkRowOf (Network_ID network) userID network m pu pp)\<lparr> n_user := n_user r \<rparr>
              else r) (NetworkT db) \<rparr>"
  using assms
  by (auto simp: storeNetworkRow_def updateNetwork_def Let_def networkRowOf_def
           split: if_splits sum.splits)

lemma storeNetworkRow_error:
  "storeNetworkRow d userID network m pu pp db = (Some e, network', db') \<Longrightarrow>
     network' = network \<and> db' = db"
  by (auto simp: storeNetworkRow_def Let_def split: if_splits sum.splits prod.splits)

lemma StoreChannel_insert:
  assumes "Channel_ID c = 0" and "StoreChannel cs d networkID c db = (None, c', db')"
  shows "\<exists>rowid. rowid \<notin> c_id ` set (ChannelT db) \<and> c' = c\<lparr> Channel_ID := rowid \<rparr>
           \<and> db' = db\<lparr> ChannelT := ChannelT db @ [channelRowOf cs rowid networkID c] \<rparr>"
proof -
  let ?new = "\<lambda>rowid. channelRowOf cs rowid networkID c"
  from assms obtain rows rowid where
    i: "insertChannel d ?new (ChannelT db) = Inr (rows, rowid)"
    and r: "c' = c\<lparr> Channel_ID := rowid \<rparr>" "db' = db\<lparr> ChannelT := rows \<rparr>"
    by (auto simp: StoreChannel_def Let_def split: if_splits sum.splits)
  from i have n: "newRowid d (map c_id (ChannelT db)) = Some rowid"
    and rows: "rows = ChannelT db @ [?new rowid]"
    by (auto simp: insertChannel_def split: if_splits option.splits)
  from newRowid_fresh[OF n] have "rowid \<notin> c_id ` set (ChannelT db)" by simp
  with r rows show ?thesis by blast
qed

lemma StoreChannel_update:
  assumes "Channel_ID c \<noteq> 0" and "StoreChannel cs d networkID c db = (None, c', db')"
  shows "c' = c \<and>
         db' = db\<lparr> ChannelT := map (\<lambda>r. if c_id r = Channel_ID c
              then channelRowOf cs (Channel_ID c) networkID c else r) (ChannelT db) \<rparr>"
  using assms
  by (auto simp: StoreChannel_def updateChannel_def Let_def channelRowOf_def
           split: if_splits sum.splits)

lemma networkRowOf_user:
  "(networkRowOf rowid uid net m pu pp)\<lparr> n_user := u \<rparr> = networkRowOf rowid u net m pu pp"
  by (simp add: networkRowOf_def)

lemma storedNetworkRow_user:
  "(storedNetworkRow rowid uid network)\<lparr> n_user := u \<rparr> = storedNetworkRow rowid u network"
  by (simp add: storedNetworkRow_def)

lemma StoreNetwork_none:
  assumes "SASL_Mechanism (Network_SASL network) = []"
  shows "StoreNetwork d userID network db = storeNetworkRow d userID network None None None db"
    and "networkRowOf rowid uid network None None None = storedNetworkRow rowid uid network"
    and "afterMechanism network = network"
  using assms
  by (simp_all add: StoreNetwork_def Let_def networkRowOf_def storedNetworkRow_def
        toNullString_def afterMechanism_def)

lemma StoreNetwork_plain:
  assumes "SASL_Mechanism (Network_SASL network) = ''PLAIN''"
  shows "StoreNetwork d userID network db =
           storeNetworkRow d userID (clearBlobs network) (Some ''PLAIN'')
             (toNullString (SASL_Plain_Username (Network_SASL network)))
             (toNullString (SASL_Plain_Password (Network_SASL network))) db"
    and "networkRowOf rowid uid (clearBlobs network) (Some ''PLAIN'')
             (toNullString (SASL_Plain_Username (Network_SASL network)))
             (toNullString (SASL_Plain_Password (Network_SASL network)))
           = storedNetworkRow rowid uid network"
    and "afterMechanism network = clearBlobs network"
  using assms
  by (simp_all add: StoreNetwork_def Let_def networkRowOf_def storedNetworkRow_def
        toNullString_def afterMechanism_def clearBlobs_def)

lemma StoreNetwork_external:
  assumes "SASL_Mechanism (Network_SASL network) = ''EXTERNAL''"
  shows "StoreNetwork d userID network db
           = storeNetworkRow d userID network (Some ''EXTERNAL'') None None db"
    and "networkRowOf rowid uid network (Some ''EXTERNAL'') None None
           = storedNetworkRow rowid uid network"
    and "afterMechanism network = network"
  using assms
  by (simp_all add: StoreNetwork_def Let_def networkRowOf_def storedNetworkRow_def
        toNullString_def afterMechanism_def)

lemma StoreNetwork_unsupported:
  assumes "SASL_Mechanism (Network_SASL network) \<noteq> []"
    and "SASL_Mechanism (Network_SASL network) \<noteq> ''PLAIN''"
    and "SASL_Mechanism (Network_SASL network) \<noteq> ''EXTERNAL''"
  shows "StoreNetwork d userID network db
           = (Some (UnsupportedSASLMechanism (SASL_Mechanism (Network_SASL network))),
              network, db)"
  using assms by (simp add: StoreNetwork_def Let_def)

lemma StoreNetwork_cases:
  assumes "StoreNetwork d userID network db = (None, network', db')"
  shows "\<exists>m pu pp.
    storeNetworkRow d userID (afterMechanism network) m pu pp db = (None, network', db')
    \<and> (\<forall>rowid uid. networkRowOf rowid uid (afterMechanism network) m pu pp
                    = storedNetworkRow rowid uid network)"
proof -
  let ?mech = "SASL_Mechanism (Network_SASL network)"
  consider (none) "?mech = []" | (plain) "?mech = ''PLAIN''" | (external) "?mech = ''EXTERNAL''"
    | (other) "?mech \<noteq> []" "?mech \<noteq> ''PLAIN''" "?mech \<noteq> ''EXTERNAL''"
    by blast
  then show ?thesis
  proof cases
    case none
    have "storeNetworkRow d userID (afterMechanism network) None None None db
            = (None, network', db')
          \<and> (\<forall>rowid uid. networkRowOf rowid uid (afterMechanism network) None None None
                    = storedNetworkRow rowid uid network)"
      using assms by (simp only: StoreNetwork_none[OF none] simp_thms)
    then show ?thesis by (intro exI)
  next
    case plain
    have "storeNetworkRow d userID (afterMechanism network) (Some ''PLAIN'')
             (toNullString (SASL_Plain_Username (Network_SASL network)))
             (toNullString (SASL_Plain_Password (Network_SASL network))) db
            = (None, network', db')
          \<and> (\<forall>rowid uid. networkRowOf rowid uid (afterMechanism network) (Some ''PLAIN'')
             (toNullString (SASL_Plain_Username (Network_SASL network)))
             (toNullString (SASL_Plain_Password (Network_SASL network)))
                    = storedNetworkRow rowid uid network)"
      using assms by (simp only: StoreNetwork_plain[OF plain] simp_thms)
    then show ?thesis by (intro exI)
  next
    case external
    have "storeNetworkRow d userID (afterMechanism network) (Some ''EXTERNAL'') None None db
            = (None, network', db')
          \<and> (\<forall>rowid uid. networkRowOf rowid uid (afterMechanism network)
                    (Some ''EXTERNAL'') None None
                    = storedNetworkRow rowid uid network)"
      using assms by (simp only: StoreNetwork_external[OF external] simp_thms)
    then show ?thesis by (intro exI)
  next
    case other
    from assms show ?thesis by (simp add: StoreNetwork_unsupported[OF other])
  qed
qed

lemma StoreNetwork_insert:
  assumes "Network_ID network = 0" and "StoreNetwork d userID network db = (None, network', db')"
  shows "\<exists>rowid. rowid \<notin> n_id ` set (NetworkT db)
           \<and> network' = (afterMechanism network)\<lparr> Network_ID := rowid \<rparr>
           \<and> db' = db\<lparr> NetworkT := NetworkT db @ [storedNetworkRow rowid userID network] \<rparr>"
proof -
  from assms(2) obtain m pu pp where
    s: "storeNetworkRow d userID (afterMechanism network) m pu pp db = (None, network', db')"
    and r0: "\<forall>rowid uid. networkRowOf rowid uid (afterMechanism network) m pu pp
                    = storedNetworkRow rowid uid network"
    using StoreNetwork_cases by blast
  have r: "networkRowOf rowid uid (afterMechanism network) m pu pp
             = storedNetworkRow rowid uid network" for rowid uid
    using r0 by blast
  have "Network_ID (afterMechanism network) = 0"
    using assms(1) by (simp add: afterMechanism_def clearBlobs_def)
  from storeNetworkRow_insert[OF this s] obtain rowid where
    f: "rowid \<notin> n_id ` set (NetworkT db)"
    and n: "network' = (afterMechanism network)\<lparr> Network_ID := rowid \<rparr>"
    and d: "db' = db\<lparr> NetworkT := NetworkT db
              @ [networkRowOf rowid userID (afterMechanism network) m pu pp] \<rparr>"
    by (elim exE conjE)
  have d': "db' = db\<lparr> NetworkT := NetworkT db @ [storedNetworkRow rowid userID network] \<rparr>"
    using d by (simp only: r)
  have "rowid \<notin> n_id ` set (NetworkT db)
           \<and> network' = (afterMechanism network)\<lparr> Network_ID := rowid \<rparr>
           \<and> db' = db\<lparr> NetworkT := NetworkT db @ [storedNetworkRow rowid userID network] \<rparr>"
    using f n d' by (intro conjI)
  then show ?thesis by (rule exI[where x = rowid])
qed

lemma StoreNetwork_update:
  assumes "Network_ID network \<noteq> 0" and "StoreNetwork d userID network db = (None, network', db')"
  shows "network' = afterMechanism network \<and>
         db' = db\<lparr> NetworkT := map (\<lambda>r. if n_id r = Network_ID network
                                        then storedNetworkRow (n_id r) (n_user r) network
                                        else r) (NetworkT db) \<rparr>"
proof -
  from assms(2) obtain m pu pp where
    s: "storeNetworkRow d userID (afterMechanism network) m pu pp db = (None, network', db')"
    and r0: "\<forall>rowid uid. networkRowOf rowid uid (afterMechanism network) m pu pp
                    = storedNetworkRow rowid uid network"
    using StoreNetwork_cases by blast
  have r: "networkRowOf rowid uid (afterMechanism network) m pu pp
             = storedNetworkRow rowid uid network" for rowid uid
    using r0 by blast
  have i: "Network_ID (afterMechanism network) = Network_ID network"
    by (simp add: afterMechanism_def clearBlobs_def)
  with assms(1) have "Network_ID (afterMechanism network) \<noteq> 0" by simp
  note u = storeNetworkRow_update[OF this s]
  have m: "map (\<lambda>r. if n_id r = Network_ID (afterMechanism network)
              then (networkRowOf (Network_ID (afterMechanism network)) userID
                      (afterMechanism network) m pu pp)\<lparr> n_user := n_user r \<rparr>
              else r) (NetworkT db)
         = map (\<lambda>r. if n_id r = Network_ID network
                     then storedNetworkRow (n_id r) (n_user r) network else r) (NetworkT db)"
    by (rule map_cong[OF refl]) (simp add: i r storedNetworkRow_user)
  have d: "db' = db\<lparr> NetworkT := map (\<lambda>r. if n_id r = Network_ID network
                                        then storedNetworkRow (n_id r) (n_user r) network
                                        else r) (NetworkT db) \<rparr>"
    using u[THEN conjunct2] by (simp only: m)
  show ?thesis by (rule conjI[OF u[THEN conjunct1] d])
qed

text \<open>C8, as the code has it: when it returns no error, each of \<open>StoreUser\<close>,
  \<open>StoreNetwork\<close> and \<open>StoreChannel\<close>, called with a record whose id is zero, appends one
  row made of the record's fields, with an id that no row of the table had, and writes
  that id into the record; called with a non-zero id, \<open>StoreNetwork\<close> and
  \<open>StoreChannel\<close> replace by the record's fields the columns of the rows with that id,
  which keep their id (and, for a network, their owner), and leave every other row as it
  was, and \<open>StoreUser\<close> does so for the rows whose username is the record's username.
  No other table changes.\<close>

theorem Store_insert_or_update:
  "(\<forall>d user db user' db'.
      User_ID user = 0 \<and> StoreUser d user db = (None, user', db') \<longrightarrow>
      (\<exists>rowid. rowid \<notin> u_id ` set (UserT db) \<and> user' = user\<lparr> User_ID := rowid \<rparr>
         \<and> db' = db\<lparr> UserT := UserT db @ [userRowOf rowid user] \<rparr>))
   \<and> (\<forall>d user db user' db'.
      User_ID user \<noteq> 0 \<and> StoreUser d user db = (None, user', db') \<longrightarrow>
      user' = user \<and>
      db' = db\<lparr> UserT := map (\<lambda>r. if u_username r = User_Username user
                                   then userRowOf (u_id r) user else r) (UserT db) \<rparr>)
   \<and> (\<forall>d userID network db network' db'.
      Network_ID network = 0 \<and> StoreNetwork d userID network db = (None, network', db') \<longrightarrow>
      (\<exists>rowid. rowid \<notin> n_id ` set (NetworkT db)
         \<and> network' = (afterMechanism network)\<lparr> Network_ID := rowid \<rparr>
         \<and> db' = db\<lparr> NetworkT := NetworkT db @ [storedNetworkRow rowid userID network] \<rparr>))
   \<and> (\<forall>d userID network db network' db'.
      Network_ID network \<noteq> 0 \<and> StoreNetwork d userID network db = (None, network', db') \<longrightarrow>
      network' = afterMechanism network \<and>
      db' = db\<lparr> NetworkT := map (\<lambda>r. if n_id r = Network_ID network
                                     then storedNetworkRow (n_id r) (n_user r) network
                                     else r) (NetworkT db) \<rparr>)
   \<and> (\<forall>cs d networkID c db c' db'.
      Channel_ID c = 0 \<and> StoreChannel cs d networkID c db = (None, c', db') \<longrightarrow>
      (\<exists>rowid. rowid \<notin> c_id ` set (ChannelT db) \<and> c' = c\<lparr> Channel_ID := rowid \<rparr>
         \<and> db' = db\<lparr> ChannelT := ChannelT db @ [channelRowOf cs rowid networkID c] \<rparr>))
   \<and> (\<forall>cs d networkID c db c' db'.
      Channel_ID c \<noteq> 0 \<and> StoreChannel cs d networkID c db = (None, c', db') \<longrightarrow>
      c' = c \<and>
      db' = db\<lparr> ChannelT := map (\<lambda>r. if c_id r = Channel_ID c
                                     then channelRowOf cs (Channel_ID c) networkID c else r)
                                (ChannelT db) \<rparr>)"
proof -
  have c1: "\<forall>d user db user' db'.
      User_ID user = 0 \<and> StoreUser d user db = (None, user', db') \<longrightarrow>
      (\<exists>rowid. rowid \<notin> u_id ` set (UserT db) \<and> user' = user\<lparr> User_ID := rowid \<rparr>
         \<and> db' = db\<lparr> UserT := UserT db @ [userRowOf rowid user] \<rparr>)"
    by (intro allI impI, elim conjE, rule StoreUser_insert)
  have c2: "\<forall>d user db user' db'.
      User_ID user \<noteq> 0 \<and> StoreUser d user db = (None, user', db') \<longrightarrow>
      user' = user \<and>
      db' = db\<lparr> UserT := map (\<lambda>r. if u_username r = User_Username user
                                   then userRowOf (u_id r) user else r) (UserT db) \<rparr>"
    by (intro allI impI, elim conjE, rule StoreUser_update)
  have c3: "\<forall>d userID network db network' db'.
      Network_ID network = 0 \<and> StoreNetwork d userID network db = (None, network', db') \<longrightarrow>
      (\<exists>rowid. rowid \<notin> n_id ` set (NetworkT db)
         \<and> network' = (afterMechanism network)\<lparr> Network_ID := rowid \<rparr>
         \<and> db' = db\<lparr> NetworkT := NetworkT db @ [storedNetworkRow rowid userID network] \<rparr>)"
    by (intro allI impI, elim conjE, rule StoreNetwork_insert)
  have c4: "\<forall>d userID network db network' db'.
      Network_ID network \<noteq> 0 \<and> StoreNetwork d userID network db = (None, network', db') \<longrightarrow>
      network' = afterMechanism network \<and>
      db' = db\<lparr> NetworkT := map (\<lambda>r. if n_id r = Network_ID network
                                     then storedNetworkRow (n_id r) (n_user r) network
                                     else r) (NetworkT db) \<rparr>"
    by (intro allI impI, elim conjE, rule StoreNetwork_update)
  have c5: "\<forall>cs d networkID c db c' db'.
      Channel_ID c = 0 \<and> StoreChannel cs d networkID c db = (None, c', db') \<longrightarrow>
      (\<exists>rowid. rowid \<notin> c_id ` set (ChannelT db) \<and> c' = c\<lparr> Channel_ID := rowid \<rparr>
         \<and> db' = db\<lparr> ChannelT := ChannelT db @ [channelRowOf cs rowid networkID c] \<rparr>)"
    by (intro allI impI, elim conjE, rule StoreChannel_insert)
  have c6: "\<forall>cs d networkID c db c' db'.
      Channel_ID c \<noteq> 0 \<and> StoreChannel cs d networkID c db = (None, c', db') \<longrightarrow>
      c' = c \<and>
      db' = db\<lparr> ChannelT := map (\<lambda>r. if c_id r = Channel_ID c
                                     then channelRowOf cs (Channel_ID c) networkID c else r)
                                (ChannelT db) \<rparr>"
    by (intro allI impI, elim conjE, rule StoreChannel_update)
  show ?thesis
    by (rule conjI[OF c1 conjI[OF c2 conjI[OF c3 conjI[OF c4 conjI[OF c5 c6]]]]])
qed

theorem Store_insert_or_update_witness:
  "User_ID carol = 0
   \<and> StoreUser okDriver carol sampleDB
       = (None, carol\<lparr> User_ID := 3 \<rparr>,
          sampleDB\<lparr> UserT := UserT sampleDB @ [userRowOf 3 carol] \<rparr>)
   \<and> User_ID alice \<noteq> 0
   \<and> StoreUser okDriver alice sampleDB
       = (None, alice,
          sampleDB\<lparr> UserT := [userRowOf 1 alice, UserT sampleDB ! 1] \<rparr>)
   \<and> Network_ID (sampleNetwork 0 ''example'' noSASL) = 0
   \<and> StoreNetwork okDriver 1 (sampleNetwork 0 ''example'' noSASL) sampleDB
       = (None, sampleNetwork 3 ''example'' noSASL,
          sampleDB\<lparr> NetworkT := NetworkT sampleDB
             @ [storedNetworkRow 3 1 (sampleNetwork 0 ''example'' noSASL)] \<rparr>)
   \<and> Network_ID (sampleNetwork 2 ''example'' noSASL) \<noteq> 0
   \<and> StoreNetwork okDriver 1 (sampleNetwork 2 ''example'' noSASL) sampleDB
       = (None, sampleNetwork 2 ''example'' noSASL,
          sampleDB\<lparr> NetworkT := [NetworkT sampleDB ! 0,
             storedNetworkRow 2 2 (sampleNetwork 2 ''example'' noSASL)] \<rparr>)
   \<and> Channel_ID (sampleChannel 0 ''#new'') = 0
   \<and> StoreChannel (\<lambda>n. n) okDriver 1 (sampleChannel 0 ''#new'') sampleDB
       = (None, sampleChannel 3 ''#new'',
          sampleDB\<lparr> ChannelT := ChannelT sampleDB
             @ [channelRowOf (\<lambda>n. n) 3 1 (sampleChannel 0 ''#new'')] \<rparr>)
   \<and> Channel_ID (sampleChannel 2 ''#oftc'') \<noteq> 0
   \<and> StoreChannel (\<lambda>n. n) okDriver 2 (sampleChannel 2 ''#oftc'') sampleDB
       = (None, sampleChannel 2 ''#oftc'',
          sampleDB\<lparr> ChannelT := [ChannelT sampleDB ! 0,
             channelRowOf (\<lambda>n. n) 2 2 (sampleChannel 2 ''#oftc'')] \<rparr>)"
proof -
  have u0: "User_ID carol = 0" by (simp add: carol_def)
  have u1: "StoreUser okDriver carol sampleDB
       = (None, carol\<lparr> User_ID := 3 \<rparr>,
          sampleDB\<lparr> UserT := UserT sampleDB @ [userRowOf 3 carol] \<rparr>)"
    by (simp add: StoreUser_def okDriver_def carol_def sampleDB_def insertUser_def newRowid_def
          maxRowid_def)
  have u2: "User_ID alice \<noteq> 0" by (simp add: alice_def)
  have u3: "StoreUser okDriver alice sampleDB
       = (None, alice, sampleDB\<lparr> UserT := [userRowOf 1 alice, UserT sampleDB ! 1] \<rparr>)"
    by (simp add: StoreUser_def okDriver_def alice_def sampleDB_def updateUser_def userRowOf_def)
  have n0: "Network_ID (sampleNetwork 0 ''example'' noSASL) = 0" by (simp add: sampleNetwork_def)
  have n1: "StoreNetwork okDriver 1 (sampleNetwork 0 ''example'' noSASL) sampleDB
       = (None, sampleNetwork 3 ''example'' noSASL,
          sampleDB\<lparr> NetworkT := NetworkT sampleDB
             @ [storedNetworkRow 3 1 (sampleNetwork 0 ''example'' noSASL)] \<rparr>)"
    by (simp add: StoreNetwork_def storeNetworkRow_def okDriver_def sampleNetwork_def noSASL_def
          sampleDB_def insertNetwork_def newRowid_def maxRowid_def networkRowOf_def
          storedNetworkRow_def networkClash_def collide_def toNullString_def Let_def)
  have n2: "Network_ID (sampleNetwork 2 ''example'' noSASL) \<noteq> 0" by (simp add: sampleNetwork_def)
  have n3: "StoreNetwork okDriver 1 (sampleNetwork 2 ''example'' noSASL) sampleDB
       = (None, sampleNetwork 2 ''example'' noSASL,
          sampleDB\<lparr> NetworkT := [NetworkT sampleDB ! 0,
             storedNetworkRow 2 2 (sampleNetwork 2 ''example'' noSASL)] \<rparr>)"
    by (simp add: StoreNetwork_def storeNetworkRow_def okDriver_def sampleNetwork_def noSASL_def
          sampleDB_def updateNetwork_def networkRowOf_def storedNetworkRow_def
          networkClash_def collide_def toNullString_def Let_def)
  have c0: "Channel_ID (sampleChannel 0 ''#new'') = 0" by (simp add: sampleChannel_def)
  have c1: "StoreChannel (\<lambda>n. n) okDriver 1 (sampleChannel 0 ''#new'') sampleDB
       = (None, sampleChannel 3 ''#new'',
          sampleDB\<lparr> ChannelT := ChannelT sampleDB
             @ [channelRowOf (\<lambda>n. n) 3 1 (sampleChannel 0 ''#new'')] \<rparr>)"
    by (simp add: StoreChannel_def okDriver_def sampleChannel_def
          sampleDB_def insertChannel_def newRowid_def maxRowid_def channelRowOf_def
          channelClash_def toNullString_def Let_def)
  have c2: "Channel_ID (sampleChannel 2 ''#oftc'') \<noteq> 0" by (simp add: sampleChannel_def)
  have c3: "StoreChannel (\<lambda>n. n) okDriver 2 (sampleChannel 2 ''#oftc'') sampleDB
       = (None, sampleChannel 2 ''#oftc'',
          sampleDB\<lparr> ChannelT := [ChannelT sampleDB ! 0,
             channelRowOf (\<lambda>n. n) 2 2 (sampleChannel 2 ''#oftc'')] \<rparr>)"
    by (simp add: StoreChannel_def okDriver_def sampleChannel_def
          sampleDB_def updateChannel_def channelRowOf_def
          channelClash_def toNullString_def Let_def)
  note T = Store_insert_or_update
  note T1 = T[THEN conjunct1, rule_format, OF conjI[OF u0 u1]]
  note T2 = T[THEN conjunct2, THEN conjunct1, rule_format, OF conjI[OF u2 u3]]
  note T3 = T[THEN conjunct2, THEN conjunct2, THEN conjunct1, rule_format, OF conjI[OF n0 n1]]
  note T4 = T[THEN conjunct2, THEN conjunct2, THEN conjunct2, THEN conjunct1, rule_format,
              OF conjI[OF n2 n3]]
  note T5 = T[THEN conjunct2, THEN conjunct2, THEN conjunct2, THEN conjunct2, THEN conjunct1,
              rule_format, OF conjI[OF c0 c1]]
  note T6 = T[THEN conjunct2, THEN conjunct2, THEN conjunct2, THEN conjunct2, THEN conjunct2,
              rule_format, OF conjI[OF c2 c3]]
  show ?thesis
    using T1 T2 T3 T4 T5 T6 u0 u1 u2 u3 n0 n1 n2 n3 c0 c1 c2 c3 by (intro conjI)
qed

text \<open>C8, as stated, fails for \<open>StoreUser\<close>: called with the id 2 and the username of
  the row 1, it rewrites the row 1 and leaves the row 2, the one with the record's id,
  as it was.\<close>

theorem StoreUser_updates_by_username:
  "StoreUser okDriver (alice\<lparr> User_ID := 2 \<rparr>) sampleDB
     = (None, alice\<lparr> User_ID := 2 \<rparr>,
        sampleDB\<lparr> UserT :=
          [\<lparr> u_id = 1, u_username = ''alice'', u_password = Some ''new'', u_admin = True,
             u_realname = Some ''Alice'' \<rparr>,
           \<lparr> u_id = 2, u_username = ''bob'', u_password = Some ''h2'', u_admin = False,
             u_realname = None \<rparr>] \<rparr>)"
  by (simp add: StoreUser_def okDriver_def alice_def sampleDB_def updateUser_def toNullString_def)

lemma StoreNetwork_PLAIN:
  assumes "SASL_Mechanism (Network_SASL network) = ''PLAIN''"
  shows "StoreNetwork d userID network db =
           storeNetworkRow d userID (clearBlobs network) (Some ''PLAIN'')
             (toNullString (SASL_Plain_Username (Network_SASL network)))
             (toNullString (SASL_Plain_Password (Network_SASL network))) db"
  using assms by (simp add: StoreNetwork_def clearBlobs_def toNullString_def Let_def)

lemma storeNetworkRow_record:
  "storeNetworkRow d userID net m pu pp db = (err, network', db') \<Longrightarrow>
     network'\<lparr> Network_ID := Network_ID net \<rparr> = net"
  by (auto simp: storeNetworkRow_def Let_def split: if_splits sum.splits prod.splits)

lemma storeNetworkRow_rows:
  assumes "storeNetworkRow d userID net m pu pp db = (None, network', db')"
    and "row \<in> set (NetworkT db')" and "n_id row = Network_ID network'"
  shows "n_sasl_external_cert row = SASL_External_CertBlob (Network_SASL net)
       \<and> n_sasl_external_key row = SASL_External_PrivKeyBlob (Network_SASL net)"
proof (cases "Network_ID net = 0")
  case True
  from storeNetworkRow_insert[OF True assms(1)] obtain rowid where
    r: "rowid \<notin> n_id ` set (NetworkT db)" "network' = net\<lparr> Network_ID := rowid \<rparr>"
       "db' = db\<lparr> NetworkT := NetworkT db @ [networkRowOf rowid userID net m pu pp] \<rparr>"
    by (elim exE conjE)
  from r(2) assms(3) have "n_id row = rowid" by simp
  with r(1) have "row \<notin> set (NetworkT db)" by auto
  with assms(2) r(3) have "row = networkRowOf rowid userID net m pu pp" by simp
  then show ?thesis by (simp add: networkRowOf_def)
next
  case False
  note u = storeNetworkRow_update[OF False assms(1)]
  from u have n: "network' = net" by simp
  let ?f = "\<lambda>r. if n_id r = Network_ID net
            then (networkRowOf (Network_ID net) userID net m pu pp)\<lparr> n_user := n_user r \<rparr>
            else r"
  from u have "NetworkT db' = map ?f (NetworkT db)" by simp
  with assms(2) have "row \<in> ?f ` set (NetworkT db)" by simp
  then obtain r where "row = ?f r" by (rule imageE)
  with assms(3) n have
    "row = (networkRowOf (Network_ID net) userID net m pu pp)\<lparr> n_user := n_user r \<rparr>"
    by (auto split: if_splits)
  then show ?thesis by (simp add: networkRowOf_def)
qed

lemma storeNetworkRow_inserted:
  assumes "storeNetworkRow d userID net m pu pp db = (None, network', db')"
    and "Network_ID net = 0"
  shows "\<exists>row \<in> set (NetworkT db'). n_id row = Network_ID network'"
proof -
  from storeNetworkRow_insert[OF assms(2) assms(1)] obtain rowid where
    r: "network' = net\<lparr> Network_ID := rowid \<rparr>"
       "db' = db\<lparr> NetworkT := NetworkT db @ [networkRowOf rowid userID net m pu pp] \<rparr>"
    by (elim exE conjE)
  have "networkRowOf rowid userID net m pu pp \<in> set (NetworkT db')" using r(2) by simp
  moreover have "n_id (networkRowOf rowid userID net m pu pp) = Network_ID network'"
    using r(1) by (simp add: networkRowOf_def)
  ultimately show ?thesis by (rule bexI[rotated])
qed

text \<open>C10: \<open>StoreNetwork\<close> called with the mechanism \<open>PLAIN\<close> leaves the caller's
  record with a nil certificate and a nil private key, whatever the outcome, and changes
  no other field but the id that an insertion writes back; on success the row stored
  under the record's id has NULL in both columns. Called with a mechanism that is not
  empty, \<open>PLAIN\<close> or \<open>EXTERNAL\<close>, it returns the error and leaves the database
  and the record as they were.\<close>

theorem StoreNetwork_sasl:
  "(\<forall>d userID network db err network' db'.
      SASL_Mechanism (Network_SASL network) = ''PLAIN''
        \<and> StoreNetwork d userID network db = (err, network', db') \<longrightarrow>
      network'\<lparr> Network_ID := Network_ID network \<rparr> = clearBlobs network
      \<and> (err = None \<longrightarrow>
           (\<forall>row \<in> set (NetworkT db'). n_id row = Network_ID network' \<longrightarrow>
              n_sasl_external_cert row = None \<and> n_sasl_external_key row = None)
           \<and> (Network_ID network = 0 \<longrightarrow>
                (\<exists>row \<in> set (NetworkT db'). n_id row = Network_ID network'))))
   \<and> (\<forall>d userID network db.
        SASL_Mechanism (Network_SASL network) \<noteq> []
          \<and> SASL_Mechanism (Network_SASL network) \<noteq> ''PLAIN''
          \<and> SASL_Mechanism (Network_SASL network) \<noteq> ''EXTERNAL'' \<longrightarrow>
        StoreNetwork d userID network db
          = (Some (UnsupportedSASLMechanism (SASL_Mechanism (Network_SASL network))),
             network, db))"
proof -
  have p: "\<forall>d userID network db err network' db'.
      SASL_Mechanism (Network_SASL network) = ''PLAIN''
        \<and> StoreNetwork d userID network db = (err, network', db') \<longrightarrow>
      network'\<lparr> Network_ID := Network_ID network \<rparr> = clearBlobs network
      \<and> (err = None \<longrightarrow>
           (\<forall>row \<in> set (NetworkT db'). n_id row = Network_ID network' \<longrightarrow>
              n_sasl_external_cert row = None \<and> n_sasl_external_key row = None)
           \<and> (Network_ID network = 0 \<longrightarrow>
                (\<exists>row \<in> set (NetworkT db'). n_id row = Network_ID network')))"
  proof (intro allI impI, elim conjE)
    fix d userID network db err network' db'
    assume m: "SASL_Mechanism (Network_SASL network) = ''PLAIN''"
      and s: "StoreNetwork d userID network db = (err, network', db')"
    let ?pu = "toNullString (SASL_Plain_Username (Network_SASL network))"
    let ?pp = "toNullString (SASL_Plain_Password (Network_SASL network))"
    from s have r: "storeNetworkRow d userID (clearBlobs network) (Some ''PLAIN'') ?pu ?pp db
                     = (err, network', db')"
      by (simp only: StoreNetwork_PLAIN[OF m])
    have i: "Network_ID (clearBlobs network) = Network_ID network" by (simp add: clearBlobs_def)
    have a: "network'\<lparr> Network_ID := Network_ID network \<rparr> = clearBlobs network"
      using storeNetworkRow_record[OF r] i by simp
    have b: "err = None \<longrightarrow>
           (\<forall>row \<in> set (NetworkT db'). n_id row = Network_ID network' \<longrightarrow>
              n_sasl_external_cert row = None \<and> n_sasl_external_key row = None)
           \<and> (Network_ID network = 0 \<longrightarrow>
                (\<exists>row \<in> set (NetworkT db'). n_id row = Network_ID network'))"
    proof
      assume "err = None"
      with r have r': "storeNetworkRow d userID (clearBlobs network) (Some ''PLAIN'') ?pu ?pp db
                     = (None, network', db')" by simp
      have 1: "\<forall>row \<in> set (NetworkT db'). n_id row = Network_ID network' \<longrightarrow>
              n_sasl_external_cert row = None \<and> n_sasl_external_key row = None"
      proof (intro ballI impI)
        fix row assume "row \<in> set (NetworkT db')" "n_id row = Network_ID network'"
        from storeNetworkRow_rows[OF r' this]
        show "n_sasl_external_cert row = None \<and> n_sasl_external_key row = None"
          by (simp add: clearBlobs_def)
      qed
      have 2: "Network_ID network = 0 \<longrightarrow>
                (\<exists>row \<in> set (NetworkT db'). n_id row = Network_ID network')"
        using storeNetworkRow_inserted[OF r'] i by simp
      from 1 2 show "(\<forall>row \<in> set (NetworkT db'). n_id row = Network_ID network' \<longrightarrow>
              n_sasl_external_cert row = None \<and> n_sasl_external_key row = None)
           \<and> (Network_ID network = 0 \<longrightarrow>
                (\<exists>row \<in> set (NetworkT db'). n_id row = Network_ID network'))" by (rule conjI)
    qed
    from a b show "network'\<lparr> Network_ID := Network_ID network \<rparr> = clearBlobs network
      \<and> (err = None \<longrightarrow>
           (\<forall>row \<in> set (NetworkT db'). n_id row = Network_ID network' \<longrightarrow>
              n_sasl_external_cert row = None \<and> n_sasl_external_key row = None)
           \<and> (Network_ID network = 0 \<longrightarrow>
                (\<exists>row \<in> set (NetworkT db'). n_id row = Network_ID network')))" by (rule conjI)
  qed
  have q: "\<forall>d userID network db.
        SASL_Mechanism (Network_SASL network) \<noteq> []
          \<and> SASL_Mechanism (Network_SASL network) \<noteq> ''PLAIN''
          \<and> SASL_Mechanism (Network_SASL network) \<noteq> ''EXTERNAL'' \<longrightarrow>
        StoreNetwork d userID network db
          = (Some (UnsupportedSASLMechanism (SASL_Mechanism (Network_SASL network))),
             network, db)"
    by (simp add: StoreNetwork_def Let_def)
  from p q show ?thesis by (rule conjI)
qed

theorem StoreNetwork_sasl_witness:
  "SASL_Mechanism (Network_SASL (sampleNetwork 0 ''example'' plainSASL)) = ''PLAIN''
   \<and> StoreNetwork okDriver 1 (sampleNetwork 0 ''example'' plainSASL) sampleDB
       = (None, clearBlobs (sampleNetwork 3 ''example'' plainSASL),
          sampleDB\<lparr> NetworkT := NetworkT sampleDB
             @ [networkRowOf 3 1 (clearBlobs (sampleNetwork 0 ''example'' plainSASL))
                  (Some ''PLAIN'') (Some ''al'') (Some ''pw'')] \<rparr>)
   \<and> n_sasl_external_cert
         (networkRowOf 3 1 (clearBlobs (sampleNetwork 0 ''example'' plainSASL))
            (Some ''PLAIN'') (Some ''al'') (Some ''pw'')) = None
   \<and> n_sasl_external_key
         (networkRowOf 3 1 (clearBlobs (sampleNetwork 0 ''example'' plainSASL))
            (Some ''PLAIN'') (Some ''al'') (Some ''pw'')) = None
   \<and> StoreNetwork okDriver 1
         (sampleNetwork 0 ''example'' (plainSASL\<lparr> SASL_Mechanism := ''SCRAM-SHA-256'' \<rparr>)) sampleDB
       = (Some (UnsupportedSASLMechanism ''SCRAM-SHA-256''),
          sampleNetwork 0 ''example'' (plainSASL\<lparr> SASL_Mechanism := ''SCRAM-SHA-256'' \<rparr>),
          sampleDB)"
proof -
  let ?net = "sampleNetwork 0 ''example'' plainSASL"
  let ?bad = "sampleNetwork 0 ''example'' (plainSASL\<lparr> SASL_Mechanism := ''SCRAM-SHA-256'' \<rparr>)"
  have m: "SASL_Mechanism (Network_SASL ?net) = ''PLAIN''"
    by (simp add: sampleNetwork_def plainSASL_def)
  have s: "StoreNetwork okDriver 1 ?net sampleDB
       = (None, clearBlobs (sampleNetwork 3 ''example'' plainSASL),
          sampleDB\<lparr> NetworkT := NetworkT sampleDB
             @ [networkRowOf 3 1 (clearBlobs ?net) (Some ''PLAIN'') (Some ''al'') (Some ''pw'')] \<rparr>)"
    by (simp add: StoreNetwork_def storeNetworkRow_def okDriver_def sampleNetwork_def plainSASL_def
          sampleDB_def insertNetwork_def newRowid_def maxRowid_def networkRowOf_def clearBlobs_def
          networkClash_def collide_def toNullString_def Let_def)
  have b: "SASL_Mechanism (Network_SASL ?bad) \<noteq> []
          \<and> SASL_Mechanism (Network_SASL ?bad) \<noteq> ''PLAIN''
          \<and> SASL_Mechanism (Network_SASL ?bad) \<noteq> ''EXTERNAL''"
    by (simp add: sampleNetwork_def plainSASL_def)
  have n: "SASL_Mechanism (Network_SASL ?bad) = ''SCRAM-SHA-256''"
    by (simp add: sampleNetwork_def plainSASL_def)
  note T1 = StoreNetwork_sasl[THEN conjunct1, rule_format, OF conjI[OF m s]]
  note T2 = StoreNetwork_sasl[THEN conjunct2, rule_format, OF b, of okDriver 1 sampleDB]
  have c: "n_sasl_external_cert
         (networkRowOf 3 1 (clearBlobs ?net) (Some ''PLAIN'') (Some ''al'') (Some ''pw'')) = None"
     "n_sasl_external_key
         (networkRowOf 3 1 (clearBlobs ?net) (Some ''PLAIN'') (Some ''al'') (Some ''pw'')) = None"
    by (simp_all add: networkRowOf_def clearBlobs_def)
  show ?thesis using m s c T1 T2 unfolding n by (intro conjI)
qed

section \<open>Splitting NAMES replies and JOIN messages\<close>

lemma namReply_length:
  "length (Message_String (namReply dc c names))
     \<le> length (Message_String (namReply dc c [])) + length names"
  by (simp add: Message_String_def namReply_def needsColon_def)

lemma joinWith_snoc:
  "joinWith sep (xs @ [x]) = (if xs \<noteq> [] then joinWith sep xs @ sep else []) @ x"
  by (induction sep xs rule: joinWith.induct) auto

lemma joinWith_nonempty:
  "\<forall>x \<in> set xs. x \<noteq> [] \<Longrightarrow> (joinWith sep xs \<noteq> []) = (xs \<noteq> [])"
  by (induction sep xs rule: joinWith.induct) auto




lemma nameChunks_bound:
  "chunk \<in> set (nameChunks maxLength ss cur) \<Longrightarrow>
   length cur \<le> 1 \<or> int (length (joinWith '' '' cur)) \<le> maxLength \<Longrightarrow>
   length chunk \<le> 1 \<or> int (length (joinWith '' '' chunk)) \<le> maxLength"
proof (induction ss arbitrary: cur)
  case Nil
  then show ?case by (auto split: if_splits)
next
  case (Cons s ss)
  show ?case
  proof (cases "cur \<noteq> [] \<and> int (length (joinWith '' '' cur)) + 1 + int (length s) > maxLength")
    case True
    with Cons.prems(1) consider "chunk = cur" | "chunk \<in> set (nameChunks maxLength ss [s])"
      by auto
    then show ?thesis
    proof cases
      case 1
      then show ?thesis using Cons.prems(2) by simp
    next
      case 2
      then show ?thesis by (rule Cons.IH) simp
    qed
  next
    case False
    with Cons.prems(1) have m: "chunk \<in> set (nameChunks maxLength ss (cur @ [s]))" by auto
    have "length (cur @ [s]) \<le> 1 \<or> int (length (joinWith '' '' (cur @ [s]))) \<le> maxLength"
      using False by (cases "cur = []") (auto simp: joinWith_snoc)
    with m show ?thesis by (rule Cons.IH)
  qed
qed


lemma channelsOf_snoc:
  "channelsOf (cur @ [(channel, key)])
     = (if cur \<noteq> [] then channelsOf cur @ '','' else []) @ channel"
  by (simp add: channelsOf_def joinWith_snoc)

lemma keysOf_nonempty:
  "(keysOf cur \<noteq> []) = (filter (\<lambda>k. k \<noteq> []) (map snd cur) \<noteq> [])"
  unfolding keysOf_def by (subst joinWith_nonempty) auto

lemma keysOf_snoc:
  "keysOf (cur @ [(channel, key)])
     = (if key \<noteq> [] then (if keysOf cur \<noteq> [] then keysOf cur @ '','' else []) @ key
        else keysOf cur)"
proof (cases "key = []")
  case True
  then show ?thesis by (simp add: keysOf_def)
next
  case False
  have "keysOf (cur @ [(channel, key)])
          = joinWith '','' (filter (\<lambda>k. k \<noteq> []) (map snd cur) @ [key])"
    using False by (simp add: keysOf_def)
  also have "\<dots> = (if filter (\<lambda>k. k \<noteq> []) (map snd cur) \<noteq> []
                   then keysOf cur @ '','' else []) @ key"
    by (simp add: joinWith_snoc keysOf_def)
  finally show ?thesis using False by (simp add: keysOf_nonempty)
qed






lemma joinChunks_bound:
  "chunk \<in> set (joinChunks ps cur) \<Longrightarrow>
   length cur \<le> 1 \<or> length (channelsOf cur) + length (keysOf cur) \<le> joinMaxLength \<Longrightarrow>
   length chunk \<le> 1 \<or> length (channelsOf chunk) + length (keysOf chunk) \<le> joinMaxLength"
proof (induction ps arbitrary: cur)
  case Nil
  then show ?case by (auto split: if_splits)
next
  case (Cons p ps)
  obtain channel key where p: "p = (channel, key)" by (cases p)
  show ?case
  proof (cases "cur \<noteq> [] \<and>
         length (channelsOf cur) + length (keysOf cur) + 1 + length channel
           + (if key \<noteq> [] then 1 + length key else 0) > joinMaxLength")
    case True
    with Cons.prems(1) p consider "chunk = cur"
      | "chunk \<in> set (joinChunks ps [(channel, key)])" by auto
    then show ?thesis
    proof cases
      case 1
      then show ?thesis using Cons.prems(2) by simp
    next
      case 2
      then show ?thesis by (rule Cons.IH) simp
    qed
  next
    case False
    with Cons.prems(1) p have m: "chunk \<in> set (joinChunks ps (cur @ [(channel, key)]))" by auto
    have "length (cur @ [(channel, key)]) \<le> 1 \<or>
          length (channelsOf (cur @ [(channel, key)])) + length (keysOf (cur @ [(channel, key)]))
            \<le> joinMaxLength"
      using False by (cases "cur = []") (auto simp: keysOf_snoc channelsOf_snoc)
    with m show ?thesis by (rule Cons.IH)
  qed
qed

lemma joinMsg_length:
  "length (Message_String (joinMsg cb kb))
     = (if kb \<noteq> [] then 5 + length cb + (if needsColon kb then 2 else 1) + length kb
        else 4 + (if needsColon cb then 2 else 1) + length cb)"
  by (simp add: Message_String_def joinMsg_def)

lemma joinMsg_bound:
  assumes "length cb + length kb \<le> joinMaxLength"
  shows "length (Message_String (joinMsg cb kb))
           \<le> 512 + (if kb \<noteq> [] \<and> needsColon kb then 1 else 0)"
  using assms by (simp add: joinMsg_length joinMaxLength_def)









text \<open>It keeps the order of two pairs that \<open>Less\<close> does not tell apart.\<close>

lemma insertionSort_keeps_ties:
  "Join insertionSort [''#a'', ''#a''] [''k1'', ''k2''] = Inr [joinMsg ''#a,#a'' ''k1,k2'']"
  by (simp add: Join_def insertionSort_def joinLess_def joinMaxLength_def)









subsection \<open>The budget of the two loops\<close>

text \<open>Both loops count against \<open>MaxMessageLen\<close> the \<open>String\<close> of the message, which
  does not hold the final CR LF, and \<open>Join\<close> counts one byte for the separator of the
  key list, which takes two when the list starts with a colon. A message that carries two
  or more entries stays within that budget.\<close>

lemma sendNames_budget:
  assumes "chunk \<in> set (nameChunks (namesMaxLength dc c) ss [])" and "2 \<le> length chunk"
  shows "int (length (Message_String (namReply dc c (joinWith '' '' chunk)))) \<le> MaxMessageLen"
proof -
  have "length chunk \<le> 1 \<or> int (length (joinWith '' '' chunk)) \<le> namesMaxLength dc c"
    using assms(1) by (rule nameChunks_bound) simp
  with assms(2) have "int (length (joinWith '' '' chunk)) \<le> namesMaxLength dc c" by simp
  moreover have "length (Message_String (namReply dc c (joinWith '' '' chunk)))
           \<le> length (Message_String (namReply dc c [])) + length (joinWith '' '' chunk)"
    by (rule namReply_length)
  ultimately show ?thesis by (simp add: namesMaxLength_def)
qed

lemma Join_budget:
  assumes "chunk \<in> set (joinChunks ps [])" and "2 \<le> length chunk"
  shows "length (Message_String (joinMsg (channelsOf chunk) (keysOf chunk)))
           \<le> 512 + (if keysOf chunk \<noteq> [] \<and> needsColon (keysOf chunk) then 1 else 0)"
proof -
  have "length chunk \<le> 1 \<or> length (channelsOf chunk) + length (keysOf chunk) \<le> joinMaxLength"
    using assms(1) by (rule joinChunks_bound) simp
  with assms(2) have "length (channelsOf chunk) + length (keysOf chunk) \<le> joinMaxLength" by simp
  then show ?thesis by (rule joinMsg_bound)
qed

text \<open>On the wire the budget is exceeded by messages that carry two entries: a reply of
  \<open>sendNames\<close> with two members takes 514 bytes, and a message of \<open>Join\<close> with two
  channels, the key starting with a colon, takes 515.\<close>

lemma sendNames_two_members_wire:
  "map (\<lambda>m. (Message_Command m, length (wire m)))
     (sendNames boundDC stdChannel [replicate 244 (CHR ''a''), replicate 245 (CHR ''b'')])
   = [(''353'', 514), (''366'', 40)]"
  by (simp add: sendNames_def boundDC_def stdChannel_def namReply_def endOfNames_def
        nameEntry_def Memberships_Format_def hasCap_def stringOfByte_def Message_String_def
        Prefix_String_def needsColon_def namesMaxLength_def MaxMessageLen_def wire_def)

lemma Join_colon_key:
  "map (\<lambda>m. length (wire m))
     (projr (Join insertionSort
               [CHR ''#'' # replicate 250 (CHR ''a''), CHR ''#'' # replicate 251 (CHR ''b'')]
               ['':k'', []])) = [515]"
  by (simp add: Join_def insertionSort_def joinLess_def joinMaxLength_def joinMsg_def
        Message_String_def needsColon_def wire_def)




end
